theory Spec2Isabelle
  imports Main "HOL-Library.Word" "HOL-Library.Signed_Division"
begin

text \<open>
  The logging package of component-base (Go): levels and their names, options and
  their defaults, the logger with its three settings, the function table through which
  entries are written and the process is ended, \<^verbatim>\<open>Configure\<close>, and the timestamp
  encoder. Functions are embedded as HOL functions over an explicit package state; what
  the package does to the outside (opening sinks, writing entries, exiting) is recorded
  as a trace of events, and what the outside answers is read from an environment.
\<close>

section \<open>Severity model (options.go)\<close>

text \<open>
  \<^verbatim>\<open>type Level int32\<close> with the constants numbered by \<^verbatim>\<open>iota\<close>. Levels are only
  compared and used as map keys, never computed with, so the integer is kept unbounded.
\<close>

type_synonym Level = int

definition NoneLevel :: Level where "NoneLevel = 0"
definition FatalLevel :: Level where "FatalLevel = 1"
definition ErrorLevel :: Level where "ErrorLevel = 2"
definition WarnLevel :: Level where "WarnLevel = 3"
definition InfoLevel :: Level where "InfoLevel = 4"
definition DebugLevel :: Level where "DebugLevel = 5"

text \<open>The levels of the zap library (\<^verbatim>\<open>zapcore.Level\<close>), in zap's order.\<close>

datatype zapLevel =
  ZapDebugLevel | ZapInfoLevel | ZapWarnLevel | ZapErrorLevel
  | ZapDPanicLevel | ZapPanicLevel | ZapFatalLevel

text \<open>
  Reading a Go map at a missing key gives the zero value of the value type;
  \<open>index_or\<close> is that read, \<open>m k\<close> on the map itself is the two-valued read \<^verbatim>\<open>v, ok := m[k]\<close>.
\<close>

definition index_or :: "('k \<rightharpoonup> 'v) \<Rightarrow> 'v \<Rightarrow> 'k \<Rightarrow> 'v" where
  "index_or m zero k = (case m k of None \<Rightarrow> zero | Some v \<Rightarrow> v)"

definition levelToString :: "Level \<rightharpoonup> string" where
  "levelToString = map_of
     [(DebugLevel, ''debug''),
      (InfoLevel, ''info''),
      (WarnLevel, ''warn''),
      (ErrorLevel, ''error''),
      (FatalLevel, ''fatal''),
      (NoneLevel, ''none'')]"

definition stringToLevel :: "string \<rightharpoonup> Level" where
  "stringToLevel = map_of
     [(''debug'', DebugLevel),
      (''info'', InfoLevel),
      (''warn'', WarnLevel),
      (''error'', ErrorLevel),
      (''fatal'', FatalLevel),
      (''none'', NoneLevel)]"

definition toLevel :: "zapLevel \<rightharpoonup> Level" where
  "toLevel = map_of
     [(ZapFatalLevel, FatalLevel),
      (ZapErrorLevel, ErrorLevel),
      (ZapWarnLevel, WarnLevel),
      (ZapInfoLevel, InfoLevel),
      (ZapDebugLevel, DebugLevel)]"

definition levelToZap :: "Level \<rightharpoonup> zapLevel" where
  "levelToZap = map_of
     [(DebugLevel, ZapDebugLevel),
      (InfoLevel, ZapInfoLevel),
      (WarnLevel, ZapWarnLevel),
      (ErrorLevel, ZapErrorLevel),
      (FatalLevel, ZapFatalLevel)]"

definition levelListString :: "string list" where
  "levelListString = [''debug'', ''info'', ''warn'', ''error'', ''fatal'', ''none'']"

section \<open>Options (options.go)\<close>

definition DefaultLoggerName :: string where "DefaultLoggerName = ''default''"
definition DefaultOutputLevel :: Level where "DefaultOutputLevel = InfoLevel"
definition DefaultStackTraceLevel :: Level where "DefaultStackTraceLevel = NoneLevel"
definition DefaultOutputPath :: string where "DefaultOutputPath = ''stdout''"
definition DefaultErrorOutputPath :: string where "DefaultErrorOutputPath = ''stderr''"
definition DefaultRotationMaxAge :: int where "DefaultRotationMaxAge = 30"
definition DefaultRotationMaxSize :: int where "DefaultRotationMaxSize = 100 * 1024 * 1024"
definition DefaultRotationMaxBackups :: int where "DefaultRotationMaxBackups = 1000"

record Options =
  OutputPath :: string
  ErrorOutputPath :: string
  RotateOutputPath :: string
  RotationMaxSize :: int
  RotationMaxAge :: int
  RotationMaxBackups :: int
  JSONEncoding :: bool
  OutputLevel :: string
  StackTraceLevel :: string
  LogCaller :: bool

text \<open>Fields the Go literal leaves out take their zero value.\<close>

definition DefaultOptions :: Options where
  "DefaultOptions =
     \<lparr>OutputPath = DefaultOutputPath,
      ErrorOutputPath = DefaultErrorOutputPath,
      RotateOutputPath = '''',
      RotationMaxSize = DefaultRotationMaxSize,
      RotationMaxAge = DefaultRotationMaxAge,
      RotationMaxBackups = DefaultRotationMaxBackups,
      JSONEncoding = False,
      OutputLevel = index_or levelToString '''' InfoLevel,
      StackTraceLevel = index_or levelToString '''' NoneLevel,
      LogCaller = False\<rparr>"

text \<open>
  \<open>RotationMaxSize\<close> is documented as a size in megabytes and is handed unchanged to
  the rotating writer's \<^verbatim>\<open>MaxSize\<close>, which that writer also reads as megabytes: its cap
  in bytes is \<^verbatim>\<open>int64(MaxSize) * int64(megabyte)\<close>, a 64-bit product that wraps around,
  and for a \<^verbatim>\<open>MaxSize\<close> of 0 the writer's own default of 100 megabytes.
\<close>

definition int64 :: "int \<Rightarrow> int" where
  "int64 x = (x + 2 ^ 63) mod 2 ^ 64 - 2 ^ 63"

definition rotationCapBytes :: "Options \<Rightarrow> int" where
  "rotationCapBytes opts =
     (if RotationMaxSize opts = 0 then int64 (100 * (1024 * 1024))
      else int64 (RotationMaxSize opts * (1024 * 1024)))"

section \<open>The world outside the package\<close>

text \<open>
  A \<^verbatim>\<open>time.Time\<close> value, as its own location shows it: what \<^verbatim>\<open>t.Date()\<close>, \<^verbatim>\<open>t.Clock()\<close>
  and \<^verbatim>\<open>t.Nanosecond()\<close> return, and the offset of its location in seconds east of UTC.
  The standard library keeps month, day, hour, minute, second and nanosecond in their
  calendar ranges; the year is any integer. The conversion \<^verbatim>\<open>t.UTC()\<close> to the same
  instant in the location UTC is the standard library's, and is taken as given
  wherever it is called.
\<close>

record Time =
  year :: int
  month :: int
  day :: int
  hour :: int
  minute :: int
  second :: int
  nanosecond :: int
  utcOffset :: int

text \<open>A write target: what \<^verbatim>\<open>zap.Open\<close>, the rotating writer and the multi-writer give.\<close>

datatype sink =
  Stdout
  | Stderr
  | FileSink string
  | RotaterSink string int int int
  | MultiWriteSyncer sink sink

datatype encoder = JSONEncoder | ConsoleEncoder

text \<open>
  A zap core: encoder, sink (\<open>None\<close> for a nil sink) and level enabler, which is either
  the fixed debug level (everything passes) or \<^verbatim>\<open>prepZap\<close>'s closure over the default logger.
\<close>

datatype levelEnabler = AtomicLevelAtDebug | DefaultLoggerEnabler

record zapCore =
  coreEnc :: encoder
  coreSink :: "sink option"
  coreEnabler :: levelEnabler

record Entry =
  entLevel :: zapLevel
  entTime :: Time
  entLoggerName :: string
  entMessage :: string
  entCaller :: "string option"
  entStack :: string

text \<open>
  What the package cannot decide by itself: the file path that \<^verbatim>\<open>zap.Open\<close> makes of
  a target (it reads a target that is not an absolute path as a URL; \<open>None\<close> when it
  turns the target down), which paths the file system lets it open (the answer may
  change over time, so it is asked with the number of events so far), the error
  (if any) a core's \<^verbatim>\<open>Write\<close> returns for an entry, the
  clock, the frame \<^verbatim>\<open>runtime.Caller\<close> finds at a depth and the text of the current stack.
\<close>

record env =
  sinkPath :: "string \<Rightarrow> string option"
  openable :: "nat \<Rightarrow> string \<Rightarrow> bool"
  coreWrite :: "zapCore \<Rightarrow> Entry \<Rightarrow> string option"
  now :: Time
  runtimeCaller :: "int \<Rightarrow> string"
  zapStack :: string

datatype error =
  InvalidOutputLevel string
  | InvalidStackTraceLevel string
  | SinkOpenError string

text \<open>
  \<^verbatim>\<open>zap.Open(target)\<close> for one target: the target is resolved to a file path; the two
  sentinel paths always open, an empty path never does, any other path is opened as
  a file for appending. The closer it returns closes that file and does nothing for
  the sentinels.
\<close>

definition zap_Open :: "env \<Rightarrow> nat \<Rightarrow> string \<Rightarrow> error + sink" where
  "zap_Open e n target =
     (case sinkPath e target of
        None \<Rightarrow> Inl (SinkOpenError target)
      | Some path \<Rightarrow>
          if path = ''stdout'' then Inr Stdout
          else if path = ''stderr'' then Inr Stderr
          else if path \<noteq> [] \<and> openable e n path then Inr (FileSink path)
          else Inl (SinkOpenError target))"

section \<open>Logger, registry and package state (logger.go, config.go)\<close>

definition callerSkipOffset :: int where "callerSkipOffset = 3"

text \<open>
  The three settings are \<^verbatim>\<open>atomic.Value\<close>s: \<open>None\<close> is a value never stored, whose
  \<^verbatim>\<open>Load().(T)\<close> panics.
\<close>

record logger =
  name :: string
  callerSkip :: int
  outputLevel :: "Level option"
  stackTraceLevel :: "Level option"
  logCallers :: "bool option"

text \<open>
  The function table. Its function fields are closures; each is represented by what
  it closes over. \<open>ftWrite\<close>, \<open>ftSync\<close> and \<open>ftClose\<close> are \<open>None\<close> for a nil function and
  otherwise hold the \<^verbatim>\<open>baseLogger\<close> core that \<^verbatim>\<open>Configure\<close>'s closures capture.
  \<open>exitProcess\<close> is \<^verbatim>\<open>os.Exit\<close>, which ends the process, or a replacement that records the
  call and returns, as the tests install.
\<close>

datatype exitFn = OsExit | ExitStub

record functionTable =
  ftWrite :: "zapCore option"
  ftSync :: "zapCore option"
  exitProcess :: exitFn
  errorSink :: sink
  ftClose :: "zapCore option"

datatype zapOption =
  ErrorOutput sink | AddCallerSkip int | AddCaller | AddStacktrace zapLevel

text \<open>Everything observable that the package does, in order.\<close>

datatype event =
  EvOpen string
  | EvClose string
  | EvWrite zapCore Entry
  | EvExit int
  | EvFprintf sink Time string
  | EvSinkSync sink
  | EvCoreSync zapCore
  | EvReplaceGlobals zapCore "zapOption list"
  | EvRedirectStdLog

record state =
  defaultLogger :: "logger option"
  funcs :: "functionTable option"
  trace :: "event list"

text \<open>How a call ends: it returns, the process exits, or it panics.\<close>

datatype 'a outcome =
  Returned 'a state
  | Exited int state
  | Panicked state

fun final :: "'a outcome \<Rightarrow> state" where
  "final (Returned _ s) = s"
| "final (Exited _ s) = s"
| "final (Panicked s) = s"

definition emit :: "event list \<Rightarrow> state \<Rightarrow> state" where
  "emit evs s = s\<lparr>trace := trace s @ evs\<rparr>"

definition SetOutputLevel :: "logger \<Rightarrow> Level \<Rightarrow> logger" where
  "SetOutputLevel l level = l\<lparr>outputLevel := Some level\<rparr>"

definition GetOutputLevel :: "logger \<Rightarrow> Level option" where
  "GetOutputLevel l = outputLevel l"

definition SetStackTraceLevel :: "logger \<Rightarrow> Level \<Rightarrow> logger" where
  "SetStackTraceLevel l level = l\<lparr>stackTraceLevel := Some level\<rparr>"

definition GetStackTraceLevel :: "logger \<Rightarrow> Level option" where
  "GetStackTraceLevel l = stackTraceLevel l"

definition SetLogCallers :: "logger \<Rightarrow> bool \<Rightarrow> logger" where
  "SetLogCallers l b = l\<lparr>logCallers := Some b\<rparr>"

definition GetLogCallers :: "logger \<Rightarrow> bool option" where
  "GetLogCallers l = logCallers l"

section \<open>Log methods (logger.go)\<close>

text \<open>
  \<^verbatim>\<open>fmt.Sprint\<close> and \<^verbatim>\<open>fmt.Sprintf\<close> belong to the standard library and are taken as
  given, over whatever type \<open>'a\<close> the arguments have.
\<close>

record 'a fmt =
  Sprint :: "'a \<Rightarrow> string"
  Sprintf :: "string \<Rightarrow> 'a list \<Rightarrow> string"

definition maybeSprintf :: "'a fmt \<Rightarrow> string \<Rightarrow> 'a list \<Rightarrow> string" where
  "maybeSprintf fm format args =
     (if length args > 0 then Sprintf fm format args else format)"

text \<open>
  The \<open>write\<close> closure that \<^verbatim>\<open>Configure\<close> puts in the function table, closed over the
  core \<open>baseLogger\<close>: write the entry, then for a fatal entry call the exit function of
  the table installed at that moment, then return the write's error.
\<close>

definition ft_write :: "env \<Rightarrow> zapCore \<Rightarrow> Entry \<Rightarrow> state \<Rightarrow> (string option) outcome" where
  "ft_write e baseLogger ent s =
     (let err = coreWrite e baseLogger ent;
          s1 = emit [EvWrite baseLogger ent] s
      in if entLevel ent = ZapFatalLevel then
           (case funcs s1 of
              None \<Rightarrow> Panicked s1
            | Some ft \<Rightarrow>
                (case exitProcess ft of
                   OsExit \<Rightarrow> Exited 1 (emit [EvExit 1] s1)
                 | ExitStub \<Rightarrow> Returned err (emit [EvExit 1] s1)))
         else Returned err s1)"

definition logger_output :: "env \<Rightarrow> logger \<Rightarrow> zapLevel \<Rightarrow> string \<Rightarrow> state \<Rightarrow> unit outcome" where
  "logger_output e l level msg s =
     (case GetLogCallers l of
        None \<Rightarrow> Panicked s
      | Some lc \<Rightarrow>
     (case GetStackTraceLevel l of
        None \<Rightarrow> Panicked s
      | Some st \<Rightarrow>
     (let thresh = index_or toLevel 0 level;
          ent = \<lparr>entLevel = level,
                 entTime = now e,
                 entLoggerName = (if name l \<noteq> DefaultLoggerName then name l else []),
                 entMessage = msg,
                 entCaller =
                   (if lc then Some (runtimeCaller e (callerSkip l + callerSkipOffset))
                    else None),
                 entStack = (if st \<ge> thresh then zapStack e else [])\<rparr>
      in case funcs s of
           None \<Rightarrow> Panicked s
         | Some ft \<Rightarrow>
             (case ftWrite ft of
                None \<Rightarrow> Returned () s
              | Some baseLogger \<Rightarrow>
                  (case ft_write e baseLogger ent s of
                     Returned None s1 \<Rightarrow> Returned () s1
                   | Returned (Some err) s1 \<Rightarrow>
                       Returned ()
                         (emit [EvFprintf (errorSink ft) (now e) err,
                                EvSinkSync (errorSink ft)] s1)
                   | Exited c s1 \<Rightarrow> Exited c s1
                   | Panicked s1 \<Rightarrow> Panicked s1)))))"

definition Info :: "'a fmt \<Rightarrow> env \<Rightarrow> logger \<Rightarrow> 'a \<Rightarrow> state \<Rightarrow> unit outcome" where
  "Info fm e l field s =
     (case GetOutputLevel l of
        None \<Rightarrow> Panicked s
      | Some t \<Rightarrow>
          if t \<ge> InfoLevel then logger_output e l ZapInfoLevel (Sprint fm field) s
          else Returned () s)"

definition Infof :: "'a fmt \<Rightarrow> env \<Rightarrow> logger \<Rightarrow> string \<Rightarrow> 'a list \<Rightarrow> state \<Rightarrow> unit outcome" where
  "Infof fm e l format fields' s =
     (case GetOutputLevel l of
        None \<Rightarrow> Panicked s
      | Some t \<Rightarrow>
          if t \<ge> InfoLevel then logger_output e l ZapInfoLevel (maybeSprintf fm format fields') s
          else Returned () s)"

definition InfoEnabled :: "logger \<Rightarrow> bool option" where
  "InfoEnabled l = map_option (\<lambda>t. t \<ge> InfoLevel) (GetOutputLevel l)"

definition Debug :: "'a fmt \<Rightarrow> env \<Rightarrow> logger \<Rightarrow> 'a \<Rightarrow> state \<Rightarrow> unit outcome" where
  "Debug fm e l field s =
     (case GetOutputLevel l of
        None \<Rightarrow> Panicked s
      | Some t \<Rightarrow>
          if t \<ge> DebugLevel then logger_output e l ZapDebugLevel (Sprint fm field) s
          else Returned () s)"

definition Debugf :: "'a fmt \<Rightarrow> env \<Rightarrow> logger \<Rightarrow> string \<Rightarrow> 'a list \<Rightarrow> state \<Rightarrow> unit outcome" where
  "Debugf fm e l format fields' s =
     (case GetOutputLevel l of
        None \<Rightarrow> Panicked s
      | Some t \<Rightarrow>
          if t \<ge> DebugLevel then logger_output e l ZapDebugLevel (maybeSprintf fm format fields') s
          else Returned () s)"

definition DebugEnabled :: "logger \<Rightarrow> bool option" where
  "DebugEnabled l = map_option (\<lambda>t. t \<ge> DebugLevel) (GetOutputLevel l)"

definition Warn :: "'a fmt \<Rightarrow> env \<Rightarrow> logger \<Rightarrow> 'a \<Rightarrow> state \<Rightarrow> unit outcome" where
  "Warn fm e l field s =
     (case GetOutputLevel l of
        None \<Rightarrow> Panicked s
      | Some t \<Rightarrow>
          if t \<ge> WarnLevel then logger_output e l ZapWarnLevel (Sprint fm field) s
          else Returned () s)"

definition Warnf :: "'a fmt \<Rightarrow> env \<Rightarrow> logger \<Rightarrow> string \<Rightarrow> 'a list \<Rightarrow> state \<Rightarrow> unit outcome" where
  "Warnf fm e l format fields' s =
     (case GetOutputLevel l of
        None \<Rightarrow> Panicked s
      | Some t \<Rightarrow>
          if t \<ge> WarnLevel then logger_output e l ZapWarnLevel (maybeSprintf fm format fields') s
          else Returned () s)"

definition WarnEnabled :: "logger \<Rightarrow> bool option" where
  "WarnEnabled l = map_option (\<lambda>t. t \<ge> WarnLevel) (GetOutputLevel l)"

definition Error :: "'a fmt \<Rightarrow> env \<Rightarrow> logger \<Rightarrow> 'a \<Rightarrow> state \<Rightarrow> unit outcome" where
  "Error fm e l field s =
     (case GetOutputLevel l of
        None \<Rightarrow> Panicked s
      | Some t \<Rightarrow>
          if t \<ge> ErrorLevel then logger_output e l ZapErrorLevel (Sprint fm field) s
          else Returned () s)"

definition Errorf :: "'a fmt \<Rightarrow> env \<Rightarrow> logger \<Rightarrow> string \<Rightarrow> 'a list \<Rightarrow> state \<Rightarrow> unit outcome" where
  "Errorf fm e l format fields' s =
     (case GetOutputLevel l of
        None \<Rightarrow> Panicked s
      | Some t \<Rightarrow>
          if t \<ge> ErrorLevel then logger_output e l ZapErrorLevel (maybeSprintf fm format fields') s
          else Returned () s)"

definition ErrorEnabled :: "logger \<Rightarrow> bool option" where
  "ErrorEnabled l = map_option (\<lambda>t. t \<ge> ErrorLevel) (GetOutputLevel l)"

definition Fatal :: "'a fmt \<Rightarrow> env \<Rightarrow> logger \<Rightarrow> 'a \<Rightarrow> state \<Rightarrow> unit outcome" where
  "Fatal fm e l field s =
     (case GetOutputLevel l of
        None \<Rightarrow> Panicked s
      | Some t \<Rightarrow>
          if t \<ge> FatalLevel then logger_output e l ZapFatalLevel (Sprint fm field) s
          else Returned () s)"

definition Fatalf :: "'a fmt \<Rightarrow> env \<Rightarrow> logger \<Rightarrow> string \<Rightarrow> 'a list \<Rightarrow> state \<Rightarrow> unit outcome" where
  "Fatalf fm e l format fields' s =
     (case GetOutputLevel l of
        None \<Rightarrow> Panicked s
      | Some t \<Rightarrow>
          if t \<ge> FatalLevel then logger_output e l ZapFatalLevel (maybeSprintf fm format fields') s
          else Returned () s)"

definition FatalEnabled :: "logger \<Rightarrow> bool option" where
  "FatalEnabled l = map_option (\<lambda>t. t \<ge> FatalLevel) (GetOutputLevel l)"

section \<open>Configuration (config.go)\<close>

text \<open>
  \<^verbatim>\<open>updateLogger\<close>: create the default logger on first use, then parse and store the
  settings one after the other, returning at the first name that does not parse.
  The message of the second error is built from \<open>OutputLevel\<close>, as in the source.
\<close>

definition updateLogger :: "Options \<Rightarrow> state \<Rightarrow> error option \<times> state" where
  "updateLogger opts s =
     (let l0 = (case defaultLogger s of
                  None \<Rightarrow> \<lparr>name = [], callerSkip = 1, outputLevel = None,
                            stackTraceLevel = None, logCallers = None\<rparr>
                | Some l \<Rightarrow> l)
      in case stringToLevel (OutputLevel opts) of
           None \<Rightarrow>
             (Some (InvalidOutputLevel (OutputLevel opts)), s\<lparr>defaultLogger := Some l0\<rparr>)
         | Some level \<Rightarrow>
             (let l1 = SetOutputLevel l0 level
              in if length (StackTraceLevel opts) \<noteq> 0 then
                   (case stringToLevel (StackTraceLevel opts) of
                      None \<Rightarrow>
                        (Some (InvalidStackTraceLevel (OutputLevel opts)),
                         s\<lparr>defaultLogger := Some l1\<rparr>)
                    | Some stackTraceLevel' \<Rightarrow>
                        (None,
                         s\<lparr>defaultLogger :=
                             Some (SetLogCallers (SetStackTraceLevel l1 stackTraceLevel')
                                     (LogCaller opts))\<rparr>))
                 else
                   (None, s\<lparr>defaultLogger := Some (SetLogCallers l1 (LogCaller opts))\<rparr>)))"

text \<open>
  The enabler closure of \<^verbatim>\<open>prepZap\<close>'s level-gated core, asked of the default logger.
\<close>

definition enabler :: "logger \<Rightarrow> zapLevel \<Rightarrow> bool option" where
  "enabler dl lvl =
     (case lvl of
        ZapErrorLevel \<Rightarrow> ErrorEnabled dl
      | ZapWarnLevel \<Rightarrow> WarnEnabled dl
      | ZapInfoLevel \<Rightarrow> InfoEnabled dl
      | _ \<Rightarrow> DebugEnabled dl)"

text \<open>
  \<^verbatim>\<open>prepZap\<close>. Both calls of \<^verbatim>\<open>zap.Open\<close> are given \<open>OutputPath\<close>: the first result is
  bound to \<open>errSink\<close>/\<open>closeErrorSink\<close>, the second to \<open>outputSink\<close>. It returns the always-on
  core, the level-gated core and the error sink.
\<close>

definition prepZap ::
  "env \<Rightarrow> Options \<Rightarrow> state \<Rightarrow> (error + zapCore \<times> zapCore \<times> sink) \<times> state" where
  "prepZap e opts s =
     (let enc = (if JSONEncoding opts then JSONEncoder else ConsoleEncoder);
          rotaterSink =
            (if RotateOutputPath opts \<noteq> [] then
               Some (RotaterSink (RotateOutputPath opts) (RotationMaxSize opts)
                       (RotationMaxBackups opts) (RotationMaxAge opts))
             else None)
      in case zap_Open e (length (trace s)) (OutputPath opts) of
           Inl err \<Rightarrow> (Inl err, s)
         | Inr errSink \<Rightarrow>
             (let s1 = emit [EvOpen (OutputPath opts)] s;
                  second =
                    (if length (OutputPath opts) > 0 then
                       (case zap_Open e (length (trace s1)) (OutputPath opts) of
                          Inl err \<Rightarrow> Inl err
                        | Inr k \<Rightarrow> Inr (Some k, emit [EvOpen (OutputPath opts)] s1))
                     else Inr (None, s1))
              in case second of
                   Inl err \<Rightarrow> (Inl err, emit [EvClose (OutputPath opts)] s1)
                 | Inr (outputSink, s2) \<Rightarrow>
                     (let sink =
                            (case (rotaterSink, outputSink) of
                               (Some r, Some out) \<Rightarrow> Some (MultiWriteSyncer out r)
                             | (Some r, None) \<Rightarrow> Some r
                             | (None, _) \<Rightarrow> outputSink);
                          alwaysOn = \<lparr>coreEnc = enc, coreSink = sink,
                                      coreEnabler = AtomicLevelAtDebug\<rparr>;
                          conditionallyOn = \<lparr>coreEnc = enc, coreSink = sink,
                                             coreEnabler = DefaultLoggerEnabler\<rparr>
                      in (Inr (alwaysOn, conditionallyOn, errSink), s2))))"

text \<open>
  \<^verbatim>\<open>Configure\<close>. The function table's closures are over \<open>baseLogger\<close>; the exit function
  is \<^verbatim>\<open>os.Exit\<close>. The zero value of a zap level, read from \<open>levelToZap\<close> at a missing
  key, is zap's info level.
\<close>

definition Configure :: "env \<Rightarrow> Options \<Rightarrow> state \<Rightarrow> (error option) outcome" where
  "Configure e opts s =
     (case updateLogger opts s of
        (Some err, s1) \<Rightarrow> Returned (Some err) s1
      | (None, s1) \<Rightarrow>
          (case prepZap e opts s1 of
             (Inl err, s2) \<Rightarrow> Returned (Some err) s2
           | (Inr (baseLogger, logBuilder, errSink), s2) \<Rightarrow>
               (let ft = \<lparr>ftWrite = Some baseLogger,
                          ftSync = Some baseLogger,
                          exitProcess = OsExit,
                          errorSink = errSink,
                          ftClose = Some baseLogger\<rparr>;
                    s3 = s2\<lparr>funcs := Some ft\<rparr>
                in case defaultLogger s3 of
                     None \<Rightarrow> Panicked s3
                   | Some dl \<Rightarrow>
                 (case GetLogCallers dl of
                     None \<Rightarrow> Panicked s3
                   | Some lc \<Rightarrow>
                 (case GetStackTraceLevel dl of
                     None \<Rightarrow> Panicked s3
                   | Some l \<Rightarrow>
                       (let zapOptions =
                              [ErrorOutput errSink, AddCallerSkip 1]
                              @ (if lc then [AddCaller] else [])
                              @ (if l \<noteq> NoneLevel
                                 then [AddStacktrace (index_or levelToZap ZapInfoLevel l)]
                                 else [])
                        in Returned None
                             (emit [EvReplaceGlobals logBuilder zapOptions,
                                    EvRedirectStdLog] s3)))))))"

text \<open>
  The package state before \<^verbatim>\<open>init\<close> runs, and \<^verbatim>\<open>init\<close> itself, which configures the
  defaults and drops the result.
\<close>

definition state0 :: state where
  "state0 = \<lparr>defaultLogger = None, funcs = None, trace = []\<rparr>"

definition init :: "env \<Rightarrow> state \<Rightarrow> state" where
  "init e s = final (Configure e DefaultOptions s)"

section \<open>Timestamp encoder (config.go)\<close>

text \<open>
  Go's \<^verbatim>\<open>/\<close> and \<^verbatim>\<open>%\<close> on integers truncate towards zero (\<open>sdiv\<close>, \<open>smod\<close>); the conversion
  \<^verbatim>\<open>byte(x)\<close> keeps the low eight bits; byte addition wraps. The result is the string of
  the 27 bytes of \<open>buf\<close>. The first statement, \<^verbatim>\<open>t = t.UTC()\<close>, calls the standard
  library's conversion, the parameter \<open>utc\<close>; every field is read from its result.
\<close>

definition byte :: "int \<Rightarrow> 8 word" where
  "byte x = word_of_int x"

definition string_of_bytes :: "8 word list \<Rightarrow> string" where
  "string_of_bytes buf = map (\<lambda>b. char_of (unat b)) buf"

definition formatDate :: "(Time \<Rightarrow> Time) \<Rightarrow> Time \<Rightarrow> string" where
  "formatDate utc t0 =
     (let t = utc t0;
          micros = nanosecond t sdiv 1000;
          buf =
            [byte ((year t sdiv 1000) smod 10) + of_char CHR ''0'',
             byte ((year t sdiv 100) smod 10) + of_char CHR ''0'',
             byte ((year t sdiv 10) smod 10) + of_char CHR ''0'',
             byte (year t smod 10) + of_char CHR ''0'',
             of_char CHR ''-'',
             byte (month t sdiv 10) + of_char CHR ''0'',
             byte (month t smod 10) + of_char CHR ''0'',
             of_char CHR ''-'',
             byte (day t sdiv 10) + of_char CHR ''0'',
             byte (day t smod 10) + of_char CHR ''0'',
             of_char CHR ''T'',
             byte (hour t sdiv 10) + of_char CHR ''0'',
             byte (hour t smod 10) + of_char CHR ''0'',
             of_char CHR '':'',
             byte (minute t sdiv 10) + of_char CHR ''0'',
             byte (minute t smod 10) + of_char CHR ''0'',
             of_char CHR '':'',
             byte (second t sdiv 10) + of_char CHR ''0'',
             byte (second t smod 10) + of_char CHR ''0'',
             of_char CHR ''.'',
             byte ((micros sdiv 100000) smod 10) + of_char CHR ''0'',
             byte ((micros sdiv 10000) smod 10) + of_char CHR ''0'',
             byte ((micros sdiv 1000) smod 10) + of_char CHR ''0'',
             byte ((micros sdiv 100) smod 10) + of_char CHR ''0'',
             byte ((micros sdiv 10) smod 10) + of_char CHR ''0'',
             byte (micros smod 10) + of_char CHR ''0'',
             of_char CHR ''Z'']
      in string_of_bytes buf)"

section \<open>Vocabulary for stating properties\<close>

text \<open>
  The ten log methods as one family: which method is called with which arguments,
  the method it dispatches to, the threshold it compares with, the zap level it
  writes at and the message it builds.
\<close>

datatype 'a call =
  CallInfo 'a | CallInfof string "'a list"
  | CallDebug 'a | CallDebugf string "'a list"
  | CallWarn 'a | CallWarnf string "'a list"
  | CallError 'a | CallErrorf string "'a list"
  | CallFatal 'a | CallFatalf string "'a list"

fun invoke :: "'a fmt \<Rightarrow> env \<Rightarrow> logger \<Rightarrow> 'a call \<Rightarrow> state \<Rightarrow> unit outcome" where
  "invoke fm e l (CallInfo x) s = Info fm e l x s"
| "invoke fm e l (CallInfof f xs) s = Infof fm e l f xs s"
| "invoke fm e l (CallDebug x) s = Debug fm e l x s"
| "invoke fm e l (CallDebugf f xs) s = Debugf fm e l f xs s"
| "invoke fm e l (CallWarn x) s = Warn fm e l x s"
| "invoke fm e l (CallWarnf f xs) s = Warnf fm e l f xs s"
| "invoke fm e l (CallError x) s = Error fm e l x s"
| "invoke fm e l (CallErrorf f xs) s = Errorf fm e l f xs s"
| "invoke fm e l (CallFatal x) s = Fatal fm e l x s"
| "invoke fm e l (CallFatalf f xs) s = Fatalf fm e l f xs s"

fun enabledQuery :: "logger \<Rightarrow> 'a call \<Rightarrow> bool option" where
  "enabledQuery l (CallInfo _) = InfoEnabled l"
| "enabledQuery l (CallInfof _ _) = InfoEnabled l"
| "enabledQuery l (CallDebug _) = DebugEnabled l"
| "enabledQuery l (CallDebugf _ _) = DebugEnabled l"
| "enabledQuery l (CallWarn _) = WarnEnabled l"
| "enabledQuery l (CallWarnf _ _) = WarnEnabled l"
| "enabledQuery l (CallError _) = ErrorEnabled l"
| "enabledQuery l (CallErrorf _ _) = ErrorEnabled l"
| "enabledQuery l (CallFatal _) = FatalEnabled l"
| "enabledQuery l (CallFatalf _ _) = FatalEnabled l"

fun callLevel :: "'a call \<Rightarrow> Level" where
  "callLevel (CallInfo _) = InfoLevel"
| "callLevel (CallInfof _ _) = InfoLevel"
| "callLevel (CallDebug _) = DebugLevel"
| "callLevel (CallDebugf _ _) = DebugLevel"
| "callLevel (CallWarn _) = WarnLevel"
| "callLevel (CallWarnf _ _) = WarnLevel"
| "callLevel (CallError _) = ErrorLevel"
| "callLevel (CallErrorf _ _) = ErrorLevel"
| "callLevel (CallFatal _) = FatalLevel"
| "callLevel (CallFatalf _ _) = FatalLevel"

fun callZapLevel :: "'a call \<Rightarrow> zapLevel" where
  "callZapLevel (CallInfo _) = ZapInfoLevel"
| "callZapLevel (CallInfof _ _) = ZapInfoLevel"
| "callZapLevel (CallDebug _) = ZapDebugLevel"
| "callZapLevel (CallDebugf _ _) = ZapDebugLevel"
| "callZapLevel (CallWarn _) = ZapWarnLevel"
| "callZapLevel (CallWarnf _ _) = ZapWarnLevel"
| "callZapLevel (CallError _) = ZapErrorLevel"
| "callZapLevel (CallErrorf _ _) = ZapErrorLevel"
| "callZapLevel (CallFatal _) = ZapFatalLevel"
| "callZapLevel (CallFatalf _ _) = ZapFatalLevel"

fun isFatalCall :: "'a call \<Rightarrow> bool" where
  "isFatalCall (CallFatal _) = True"
| "isFatalCall (CallFatalf _ _) = True"
| "isFatalCall _ = False"

fun callMessage :: "'a fmt \<Rightarrow> 'a call \<Rightarrow> string" where
  "callMessage fm (CallInfo x) = Sprint fm x"
| "callMessage fm (CallInfof f xs) = maybeSprintf fm f xs"
| "callMessage fm (CallDebug x) = Sprint fm x"
| "callMessage fm (CallDebugf f xs) = maybeSprintf fm f xs"
| "callMessage fm (CallWarn x) = Sprint fm x"
| "callMessage fm (CallWarnf f xs) = maybeSprintf fm f xs"
| "callMessage fm (CallError x) = Sprint fm x"
| "callMessage fm (CallErrorf f xs) = maybeSprintf fm f xs"
| "callMessage fm (CallFatal x) = Sprint fm x"
| "callMessage fm (CallFatalf f xs) = maybeSprintf fm f xs"

text \<open>The entry that \<open>logger_output\<close> builds for a logger whose settings are stored.\<close>

definition entryOf :: "env \<Rightarrow> logger \<Rightarrow> zapLevel \<Rightarrow> string \<Rightarrow> Entry" where
  "entryOf e l level msg =
     \<lparr>entLevel = level,
      entTime = now e,
      entLoggerName = (if name l \<noteq> DefaultLoggerName then name l else []),
      entMessage = msg,
      entCaller =
        (case logCallers l of
           Some True \<Rightarrow> Some (runtimeCaller e (callerSkip l + callerSkipOffset))
         | _ \<Rightarrow> None),
      entStack =
        (case stackTraceLevel l of
           Some st \<Rightarrow> if st \<ge> index_or toLevel 0 level then zapStack e else []
         | None \<Rightarrow> [])\<rparr>"

text \<open>The diagnostic that follows a failed write: a line on the error sink, then its sync.\<close>

definition diagnostic :: "env \<Rightarrow> functionTable \<Rightarrow> string option \<Rightarrow> event list" where
  "diagnostic e ft err =
     (case err of
        None \<Rightarrow> []
      | Some m \<Rightarrow> [EvFprintf (errorSink ft) (now e) m, EvSinkSync (errorSink ft)])"

text \<open>What a call added to the trace, and the parts of it that properties speak of.\<close>

definition newEvents :: "state \<Rightarrow> 'a outcome \<Rightarrow> event list" where
  "newEvents s out = drop (length (trace s)) (trace (final out))"

fun writesOf :: "event list \<Rightarrow> Entry list" where
  "writesOf [] = []"
| "writesOf (EvWrite c ent # evs) = ent # writesOf evs"
| "writesOf (ev # evs) = writesOf evs"

fun exitsOf :: "event list \<Rightarrow> int list" where
  "exitsOf [] = []"
| "exitsOf (EvExit c # evs) = c # exitsOf evs"
| "exitsOf (ev # evs) = exitsOf evs"

fun opensOf :: "event list \<Rightarrow> string list" where
  "opensOf [] = []"
| "opensOf (EvOpen p # evs) = p # opensOf evs"
| "opensOf (ev # evs) = opensOf evs"

fun returned :: "'a outcome \<Rightarrow> bool" where
  "returned (Returned _ _) = True"
| "returned _ = False"

fun exitedWith :: "'a outcome \<Rightarrow> int option" where
  "exitedWith (Exited c _) = Some c"
| "exitedWith _ = None"

fun returnedError :: "(error option) outcome \<Rightarrow> error option" where
  "returnedError (Returned r _) = r"
| "returnedError _ = None"

fun isInvalidLevel :: "error \<Rightarrow> bool" where
  "isInvalidLevel (InvalidOutputLevel _) = True"
| "isInvalidLevel (InvalidStackTraceLevel _) = True"
| "isInvalidLevel (SinkOpenError _) = False"

text \<open>
  A logger and a state on which a log call can run to its end: the three settings
  are stored and a function table with a write function is installed.
\<close>

definition ready :: "logger \<Rightarrow> state \<Rightarrow> bool" where
  "ready l s =
     (outputLevel l \<noteq> None \<and> stackTraceLevel l \<noteq> None \<and> logCallers l \<noteq> None
      \<and> (case funcs s of None \<Rightarrow> False | Some ft \<Rightarrow> ftWrite ft \<noteq> None))"

text \<open>The settings of the default logger, \<open>None\<close> where there is nothing stored.\<close>

definition curOutputLevel :: "state \<Rightarrow> Level option" where
  "curOutputLevel s = (case defaultLogger s of None \<Rightarrow> None | Some l \<Rightarrow> outputLevel l)"

definition curStackTraceLevel :: "state \<Rightarrow> Level option" where
  "curStackTraceLevel s =
     (case defaultLogger s of None \<Rightarrow> None | Some l \<Rightarrow> stackTraceLevel l)"

definition curLogCallers :: "state \<Rightarrow> bool option" where
  "curLogCallers s = (case defaultLogger s of None \<Rightarrow> None | Some l \<Rightarrow> logCallers l)"

text \<open>A level name that \<^verbatim>\<open>updateLogger\<close> turns down.\<close>

definition rejectedLevels :: "Options \<Rightarrow> bool" where
  "rejectedLevels opts =
     (stringToLevel (OutputLevel opts) = None
      \<or> (StackTraceLevel opts \<noteq> [] \<and> stringToLevel (StackTraceLevel opts) = None))"

subsection \<open>The timestamp as the specification words it\<close>

text \<open>
  Following the specification, not the source: \<open>YYYY-MM-DDTHH:MM:SS.mmmmmmZ\<close>, each
  field the decimal numeral of its value, padded with zeros to its width.
\<close>

definition digit_char :: "nat \<Rightarrow> char" where
  "digit_char d = char_of (48 + d)"

fun decimal :: "nat \<Rightarrow> nat \<Rightarrow> string" where
  "decimal 0 n = []"
| "decimal (Suc w) n = decimal w (n div 10) @ [digit_char (n mod 10)]"

definition spec_timestamp :: "Time \<Rightarrow> string" where
  "spec_timestamp t =
     decimal 4 (nat (year t)) @ ''-'' @ decimal 2 (nat (month t)) @ ''-''
     @ decimal 2 (nat (day t)) @ ''T'' @ decimal 2 (nat (hour t)) @ '':''
     @ decimal 2 (nat (minute t)) @ '':'' @ decimal 2 (nat (second t)) @ ''.''
     @ decimal 6 (nat (nanosecond t) div 1000) @ ''Z''"

definition is_digit :: "char \<Rightarrow> bool" where
  "is_digit c = (of_char CHR ''0'' \<le> (of_char c :: nat) \<and> (of_char c :: nat) \<le> of_char CHR ''9'')"

definition digit_value :: "char \<Rightarrow> nat" where
  "digit_value c = of_char c - 48"

definition decimal_value :: "string \<Rightarrow> nat" where
  "decimal_value cs = foldl (\<lambda>acc c. 10 * acc + digit_value c) 0 cs"

text \<open>
  The shape \<open>dddd-dd-ddTdd:dd:dd.ddddddZ\<close> of the tests' \<^verbatim>\<open>timePattern\<close>, with the
  separators taken literally.
\<close>

definition timePattern :: "string \<Rightarrow> bool" where
  "timePattern cs =
     (length cs = 27
      \<and> list_all is_digit (take 4 cs) \<and> cs ! 4 = CHR ''-''
      \<and> list_all is_digit (take 2 (drop 5 cs)) \<and> cs ! 7 = CHR ''-''
      \<and> list_all is_digit (take 2 (drop 8 cs)) \<and> cs ! 10 = CHR ''T''
      \<and> list_all is_digit (take 2 (drop 11 cs)) \<and> cs ! 13 = CHR '':''
      \<and> list_all is_digit (take 2 (drop 14 cs)) \<and> cs ! 16 = CHR '':''
      \<and> list_all is_digit (take 2 (drop 17 cs)) \<and> cs ! 19 = CHR ''.''
      \<and> list_all is_digit (take 6 (drop 20 cs)) \<and> cs ! 26 = CHR ''Z'')"

text \<open>The calendar ranges the standard library keeps, and the years of four digits.\<close>

definition calendar_ranges :: "Time \<Rightarrow> bool" where
  "calendar_ranges t =
     (1 \<le> month t \<and> month t \<le> 12 \<and> 1 \<le> day t \<and> day t \<le> 31
      \<and> 0 \<le> hour t \<and> hour t \<le> 23 \<and> 0 \<le> minute t \<and> minute t \<le> 59
      \<and> 0 \<le> second t \<and> second t \<le> 59
      \<and> 0 \<le> nanosecond t \<and> nanosecond t \<le> 999999999)"

definition four_digit_year :: "Time \<Rightarrow> bool" where
  "four_digit_year t = (0 \<le> year t \<and> year t \<le> 9999)"

section \<open>Concrete runs\<close>

text \<open>An instant in UTC, and the same instant on a clock two hours east of UTC.\<close>

definition exTime :: Time where
  "exTime = \<lparr>year = 2024, month = 3, day = 9, hour = 7, minute = 5, second = 1,
             nanosecond = 123456789, utcOffset = 0\<rparr>"

definition exLocalTime :: Time where
  "exLocalTime = \<lparr>year = 2024, month = 3, day = 9, hour = 9, minute = 5, second = 1,
                  nanosecond = 123456789, utcOffset = 7200\<rparr>"

text \<open>
  A stand-in for the library's conversion to UTC: it moves the clock back by the
  offset, which is the conversion for every time whose instant falls on the same
  calendar day in UTC, as the times of the runs below do.
\<close>

definition exUTC :: "Time \<Rightarrow> Time" where
  "exUTC t =
     (let secs = hour t * 3600 + minute t * 60 + second t - utcOffset t
      in t\<lparr>hour := secs div 3600, minute := secs mod 3600 div 60, second := secs mod 60,
           utcOffset := 0\<rparr>)"

text \<open>
  An environment in which every target is its own path, no file can be opened and
  every write succeeds.
\<close>

definition exEnv :: env where
  "exEnv = \<lparr>sinkPath = Some, openable = (\<lambda>_ _. False), coreWrite = (\<lambda>_ _. None),
            now = exTime,
            runtimeCaller = (\<lambda>_. ''main.go:10''), zapStack = ''goroutine 1''\<rparr>"

text \<open>The same environment with a sink on which every write fails.\<close>

definition exFailEnv :: env where
  "exFailEnv = exEnv\<lparr>coreWrite := (\<lambda>_ _. Some ''disk full'')\<rparr>"

text \<open>A stand-in formatter over strings, marking where \<^verbatim>\<open>Sprintf\<close> was applied.\<close>

definition exFmt :: "string fmt" where
  "exFmt = \<lparr>Sprint = (\<lambda>x. x), Sprintf = (\<lambda>f xs. ''Sprintf:'' @ f @ concat xs)\<rparr>"

text \<open>The package after \<^verbatim>\<open>init\<close>, its default logger, and its table with a stub exit.\<close>

definition exState :: state where
  "exState = init exEnv state0"

definition exLogger :: logger where
  "exLogger = \<lparr>name = [], callerSkip = 1, outputLevel = Some InfoLevel,
               stackTraceLevel = Some NoneLevel, logCallers = Some False\<rparr>"

definition exCore :: zapCore where
  "exCore = \<lparr>coreEnc = ConsoleEncoder, coreSink = Some Stdout,
             coreEnabler = AtomicLevelAtDebug\<rparr>"

definition exStubState :: state where
  "exStubState =
     exState\<lparr>funcs := map_option (\<lambda>ft. ft\<lparr>exitProcess := ExitStub\<rparr>) (funcs exState)\<rparr>"

section \<open>Basic facts\<close>

lemmas Level_defs =
  NoneLevel_def FatalLevel_def ErrorLevel_def WarnLevel_def InfoLevel_def DebugLevel_def

lemma invoke_unfold:
  "invoke fm e l c s =
     (case outputLevel l of
        None \<Rightarrow> Panicked s
      | Some t \<Rightarrow>
          if t \<ge> callLevel c then logger_output e l (callZapLevel c) (callMessage fm c) s
          else Returned () s)"
  by (cases c)
     (simp_all add: Info_def Infof_def Debug_def Debugf_def Warn_def Warnf_def Error_def
        Errorf_def Fatal_def Fatalf_def GetOutputLevel_def split: option.split)

lemma enabledQuery_unfold:
  "enabledQuery l c = map_option (\<lambda>t. t \<ge> callLevel c) (outputLevel l)"
  by (cases c)
     (simp_all add: InfoEnabled_def DebugEnabled_def WarnEnabled_def ErrorEnabled_def
        FatalEnabled_def GetOutputLevel_def)

lemma emit_emit: "emit b (emit a s) = emit (a @ b) s"
  by (simp add: emit_def)

lemma funcs_emit: "funcs (emit evs s) = funcs s"
  by (simp add: emit_def)

lemma newEvents_emit:
  "newEvents s (Returned x (emit evs s)) = evs"
  "newEvents s (Exited c (emit evs s)) = evs"
  "newEvents s (Panicked (emit evs s)) = evs"
  by (simp_all add: newEvents_def emit_def)

lemma newEvents_same:
  "newEvents s (Returned x s) = []"
  "newEvents s (Panicked s) = []"
  by (simp_all add: newEvents_def)

lemma logger_output_plain:
  assumes "logCallers l = Some lc" "stackTraceLevel l = Some st"
    and "funcs s = Some ft" "ftWrite ft = Some core" "level \<noteq> ZapFatalLevel"
  shows "logger_output e l level msg s =
           Returned () (emit (EvWrite core (entryOf e l level msg)
                              # diagnostic e ft (coreWrite e core (entryOf e l level msg))) s)"
proof -
  have ent: "\<lparr>entLevel = level, entTime = now e,
              entLoggerName = (if name l \<noteq> DefaultLoggerName then name l else []),
              entMessage = msg,
              entCaller = (if lc then Some (runtimeCaller e (callerSkip l + callerSkipOffset))
                           else None),
              entStack = (if st \<ge> index_or toLevel 0 level then zapStack e else [])\<rparr>
             = entryOf e l level msg"
    using assms(1,2) by (simp add: entryOf_def)
  show ?thesis
    using assms
    by (cases "coreWrite e core (entryOf e l level msg)")
       (simp_all add: logger_output_def GetLogCallers_def GetStackTraceLevel_def Let_def ent
          ft_write_def emit_emit diagnostic_def)
qed


lemma logger_output_fatal:
  assumes "logCallers l = Some lc" "stackTraceLevel l = Some st"
    and "funcs s = Some ft" "ftWrite ft = Some core"
  shows "logger_output e l ZapFatalLevel msg s =
           (case exitProcess ft of
              OsExit \<Rightarrow>
                Exited 1 (emit [EvWrite core (entryOf e l ZapFatalLevel msg), EvExit 1] s)
            | ExitStub \<Rightarrow>
                Returned ()
                  (emit (EvWrite core (entryOf e l ZapFatalLevel msg) # EvExit 1
                         # diagnostic e ft (coreWrite e core (entryOf e l ZapFatalLevel msg))) s))"
proof -
  have ent: "\<lparr>entLevel = ZapFatalLevel, entTime = now e,
              entLoggerName = (if name l \<noteq> DefaultLoggerName then name l else []),
              entMessage = msg,
              entCaller = (if lc then Some (runtimeCaller e (callerSkip l + callerSkipOffset))
                           else None),
              entStack = (if st \<ge> index_or toLevel 0 ZapFatalLevel then zapStack e else [])\<rparr>
             = entryOf e l ZapFatalLevel msg"
    using assms(1,2) by (simp add: entryOf_def)
  have lvl: "entLevel (entryOf e l ZapFatalLevel msg) = ZapFatalLevel"
    by (simp add: entryOf_def)
  show ?thesis
    using assms
    by (cases "coreWrite e core (entryOf e l ZapFatalLevel msg)"; cases "exitProcess ft")
       (simp_all add: logger_output_def GetLogCallers_def GetStackTraceLevel_def Let_def ent
          lvl ft_write_def emit_emit funcs_emit diagnostic_def)
qed

lemma callZapLevel_fatal: "(callZapLevel c = ZapFatalLevel) = isFatalCall c"
  by (cases c) simp_all

lemma writesOf_diagnostic: "writesOf (diagnostic e ft err) = []"
  by (cases err) (simp_all add: diagnostic_def)

lemma exitsOf_diagnostic: "exitsOf (diagnostic e ft err) = []"
  by (cases err) (simp_all add: diagnostic_def)

lemma ready_cases:
  assumes "ready l s"
  obtains t st lc ft core where "outputLevel l = Some t" "stackTraceLevel l = Some st"
    "logCallers l = Some lc" "funcs s = Some ft" "ftWrite ft = Some core"
  using assms by (auto simp: ready_def split: option.splits)

text \<open>What any of the ten calls does on a ready logger, in one equation.\<close>

lemma invoke_ready:
  assumes "outputLevel l = Some t" "stackTraceLevel l = Some st" "logCallers l = Some lc"
    and "funcs s = Some ft" "ftWrite ft = Some core"
  shows "invoke fm e l c s =
     (let ent = entryOf e l (callZapLevel c) (callMessage fm c);
          diag = diagnostic e ft (coreWrite e core ent)
      in if \<not> t \<ge> callLevel c then Returned () s
         else if \<not> isFatalCall c then Returned () (emit (EvWrite core ent # diag) s)
         else case exitProcess ft of
                OsExit \<Rightarrow> Exited 1 (emit [EvWrite core ent, EvExit 1] s)
              | ExitStub \<Rightarrow> Returned () (emit (EvWrite core ent # EvExit 1 # diag) s))"
proof (cases "isFatalCall c")
  case True
  then have "callZapLevel c = ZapFatalLevel" by (simp add: callZapLevel_fatal)
  then show ?thesis
    using True assms logger_output_fatal [OF assms(3,2,4,5), of e "callMessage fm c"]
    by (simp add: invoke_unfold Let_def)
next
  case False
  then have "callZapLevel c \<noteq> ZapFatalLevel" by (simp add: callZapLevel_fatal)
  then show ?thesis
    using False assms logger_output_plain [OF assms(3,2,4,5), of "callZapLevel c" e "callMessage fm c"]
    by (simp add: invoke_unfold Let_def)
qed

section \<open>Enablement and emission\<close>

text \<open>
  Claim C5. The levels are ordered None < Fatal < Error < Warn < Info < Debug. After
  \<open>SetOutputLevel l T\<close>, each enablement query answers whether \<open>T\<close> is at least its own
  level, and each of the ten write methods, run on a logger whose settings are stored
  and with a write function installed, writes exactly one entry (at its level, with
  its message) if its enablement query holds and writes nothing otherwise.
\<close>

theorem enablement_threshold:
  "NoneLevel < FatalLevel \<and> FatalLevel < ErrorLevel \<and> ErrorLevel < WarnLevel
   \<and> WarnLevel < InfoLevel \<and> InfoLevel < DebugLevel
   \<and> DebugEnabled (SetOutputLevel l T) = Some (T \<ge> DebugLevel)
   \<and> InfoEnabled (SetOutputLevel l T) = Some (T \<ge> InfoLevel)
   \<and> WarnEnabled (SetOutputLevel l T) = Some (T \<ge> WarnLevel)
   \<and> ErrorEnabled (SetOutputLevel l T) = Some (T \<ge> ErrorLevel)
   \<and> FatalEnabled (SetOutputLevel l T) = Some (T \<ge> FatalLevel)
   \<and> enabledQuery (SetOutputLevel l T) c = Some (T \<ge> callLevel c)
   \<and> (ready (SetOutputLevel l T) s \<longrightarrow>
        writesOf (newEvents s (invoke fm e (SetOutputLevel l T) c s)) =
          (if enabledQuery (SetOutputLevel l T) c = Some True
           then [entryOf e (SetOutputLevel l T) (callZapLevel c) (callMessage fm c)]
           else []))"
proof -
  have ord: "NoneLevel < FatalLevel \<and> FatalLevel < ErrorLevel \<and> ErrorLevel < WarnLevel
     \<and> WarnLevel < InfoLevel \<and> InfoLevel < DebugLevel"
    by (simp add: Level_defs)
  have q: "DebugEnabled (SetOutputLevel l T) = Some (T \<ge> DebugLevel)
     \<and> InfoEnabled (SetOutputLevel l T) = Some (T \<ge> InfoLevel)
     \<and> WarnEnabled (SetOutputLevel l T) = Some (T \<ge> WarnLevel)
     \<and> ErrorEnabled (SetOutputLevel l T) = Some (T \<ge> ErrorLevel)
     \<and> FatalEnabled (SetOutputLevel l T) = Some (T \<ge> FatalLevel)"
    by (simp add: DebugEnabled_def InfoEnabled_def WarnEnabled_def ErrorEnabled_def
          FatalEnabled_def GetOutputLevel_def SetOutputLevel_def)
  have en: "enabledQuery (SetOutputLevel l T) c = Some (T \<ge> callLevel c)"
    by (simp add: enabledQuery_unfold SetOutputLevel_def)
  have wr: "writesOf (newEvents s (invoke fm e (SetOutputLevel l T) c s)) =
          (if enabledQuery (SetOutputLevel l T) c = Some True
           then [entryOf e (SetOutputLevel l T) (callZapLevel c) (callMessage fm c)]
           else [])" if r: "ready (SetOutputLevel l T) s"
  proof -
    from r obtain t st lc ft core where h:
      "outputLevel (SetOutputLevel l T) = Some t"
      "stackTraceLevel (SetOutputLevel l T) = Some st"
      "logCallers (SetOutputLevel l T) = Some lc" "funcs s = Some ft" "ftWrite ft = Some core"
      by (rule ready_cases)
    have t: "t = T" using h(1) by (simp add: SetOutputLevel_def)
    show ?thesis
      unfolding en invoke_ready [OF h] t
      by (cases "exitProcess ft")
         (simp_all add: Let_def newEvents_emit newEvents_same writesOf_diagnostic)
  qed
  show ?thesis using ord q en wr by blast
qed


section \<open>Facts about the concrete runs\<close>

lemma exState_funcs:
  "funcs exState = Some \<lparr>ftWrite = Some exCore, ftSync = Some exCore, exitProcess = OsExit,
                          errorSink = Stdout, ftClose = Some exCore\<rparr>"
  by code_simp

lemma exState_logger: "defaultLogger exState = Some exLogger"
  by code_simp

lemma exStubState_funcs:
  "funcs exStubState = Some \<lparr>ftWrite = Some exCore, ftSync = Some exCore,
                              exitProcess = ExitStub, errorSink = Stdout,
                              ftClose = Some exCore\<rparr>"
  by (simp add: exStubState_def exState_funcs)

lemma ready_ex: "ready (SetOutputLevel exLogger T) exState"
  by (simp add: ready_def SetOutputLevel_def exLogger_def exState_funcs)

theorem enablement_threshold_witness:
  "ready (SetOutputLevel exLogger WarnLevel) exState
   \<and> writesOf (newEvents exState
        (invoke exFmt exEnv (SetOutputLevel exLogger WarnLevel) (CallInfo ''hello'') exState)) = []
   \<and> writesOf (newEvents exState
        (invoke exFmt exEnv (SetOutputLevel exLogger WarnLevel) (CallError ''hello'') exState)) =
       [entryOf exEnv (SetOutputLevel exLogger WarnLevel) ZapErrorLevel ''hello'']"
  using enablement_threshold [of exLogger WarnLevel "CallInfo ''hello''" exState exFmt exEnv]
    enablement_threshold [of exLogger WarnLevel "CallError ''hello''" exState exFmt exEnv]
    ready_ex [of WarnLevel]
  by (simp add: Level_defs exFmt_def)

section \<open>Fatal calls and process exit\<close>

lemma fatal_enabled_events:
  assumes "outputLevel l = Some t" "stackTraceLevel l = Some st" "logCallers l = Some lc"
    and "funcs s = Some ft" "ftWrite ft = Some core"
    and "isFatalCall c" "t \<ge> FatalLevel"
  shows "exitsOf (newEvents s (invoke fm e l c s)) = [1]"
    and "take 2 (newEvents s (invoke fm e l c s)) =
           [EvWrite core (entryOf e l ZapFatalLevel (callMessage fm c)), EvExit 1]"
    and "exitProcess ft = OsExit \<longrightarrow> exitedWith (invoke fm e l c s) = Some 1"
proof -
  have lv: "callLevel c = FatalLevel" "callZapLevel c = ZapFatalLevel"
    using assms(6) by (cases c; simp)+
  show "exitsOf (newEvents s (invoke fm e l c s)) = [1]"
    unfolding invoke_ready [OF assms(1-5)] using assms(6,7) lv
    by (cases "exitProcess ft")
       (simp_all add: Let_def newEvents_emit exitsOf_diagnostic)
  show "take 2 (newEvents s (invoke fm e l c s)) =
           [EvWrite core (entryOf e l ZapFatalLevel (callMessage fm c)), EvExit 1]"
    unfolding invoke_ready [OF assms(1-5)] using assms(6,7) lv
    by (cases "exitProcess ft") (simp_all add: Let_def newEvents_emit)
  show "exitProcess ft = OsExit \<longrightarrow> exitedWith (invoke fm e l c s) = Some 1"
    unfolding invoke_ready [OF assms(1-5)] using assms(6,7) lv
    by (simp add: Let_def)
qed

lemma fatal_disabled:
  assumes "outputLevel l = Some t" "\<not> t \<ge> FatalLevel" "isFatalCall c"
  shows "invoke fm e l c s = Returned () s"
proof -
  have "callLevel c = FatalLevel" using assms(3) by (cases c; simp)
  then show ?thesis using assms(1,2) by (simp add: invoke_unfold)
qed

text \<open>
  Claim C1, as amended. On a logger whose settings are stored, with a function table
  installed whose write function is set: if the output level is at least Fatal,
  \<open>Fatal\<close> and \<open>Fatalf\<close> write the entry and right after it call the exit function of
  the installed table with status 1, exactly once (with \<^verbatim>\<open>os.Exit\<close> installed the process
  ends with status 1); if the output level is below Fatal (it is None), they return
  at once: nothing is written and the exit function is not called.
\<close>

theorem fatal_exit_iff_enabled:
  assumes "outputLevel l = Some t" "stackTraceLevel l = Some st" "logCallers l = Some lc"
    and "funcs s = Some ft" "ftWrite ft = Some core"
  shows "(t \<ge> FatalLevel \<longrightarrow>
            exitsOf (newEvents s (Fatal fm e l field s)) = [1]
          \<and> take 2 (newEvents s (Fatal fm e l field s)) =
              [EvWrite core (entryOf e l ZapFatalLevel (Sprint fm field)), EvExit 1]
          \<and> (exitProcess ft = OsExit \<longrightarrow> exitedWith (Fatal fm e l field s) = Some 1)
          \<and> exitsOf (newEvents s (Fatalf fm e l format args s)) = [1]
          \<and> take 2 (newEvents s (Fatalf fm e l format args s)) =
              [EvWrite core (entryOf e l ZapFatalLevel (maybeSprintf fm format args)), EvExit 1]
          \<and> (exitProcess ft = OsExit \<longrightarrow>
               exitedWith (Fatalf fm e l format args s) = Some 1))
       \<and> (\<not> t \<ge> FatalLevel \<longrightarrow>
            Fatal fm e l field s = Returned () s
          \<and> Fatalf fm e l format args s = Returned () s)"
proof (intro conjI impI)
  assume en: "t \<ge> FatalLevel"
  note a = fatal_enabled_events [OF assms _ en, of "CallFatal field" fm e, simplified]
  note b = fatal_enabled_events [OF assms _ en, of "CallFatalf format args" fm e, simplified]
  show "exitsOf (newEvents s (Fatal fm e l field s)) = [1]" using a(1) .
  show "take 2 (newEvents s (Fatal fm e l field s)) =
          [EvWrite core (entryOf e l ZapFatalLevel (Sprint fm field)), EvExit 1]"
    using a(2) .
  show "exitedWith (Fatal fm e l field s) = Some 1" if "exitProcess ft = OsExit"
    using a(3) that by simp
  show "exitsOf (newEvents s (Fatalf fm e l format args s)) = [1]" using b(1) .
  show "take 2 (newEvents s (Fatalf fm e l format args s)) =
          [EvWrite core (entryOf e l ZapFatalLevel (maybeSprintf fm format args)), EvExit 1]"
    using b(2) .
  show "exitedWith (Fatalf fm e l format args s) = Some 1" if "exitProcess ft = OsExit"
    using b(3) that by simp
next
  assume dis: "\<not> t \<ge> FatalLevel"
  show "Fatal fm e l field s = Returned () s"
    using fatal_disabled [OF assms(1) dis, of "CallFatal field" fm e s] by simp
  show "Fatalf fm e l format args s = Returned () s"
    using fatal_disabled [OF assms(1) dis, of "CallFatalf format args" fm e s] by simp
qed

lemma exLogger_fields:
  "outputLevel exLogger = Some InfoLevel"
  "stackTraceLevel exLogger = Some NoneLevel"
  "logCallers exLogger = Some False"
  by (simp_all add: exLogger_def)

lemma exFuncs_fields:
  "ftWrite \<lparr>ftWrite = Some exCore, ftSync = Some exCore, exitProcess = x,
            errorSink = Stdout, ftClose = Some exCore\<rparr> = Some exCore"
  by simp

theorem fatal_exit_iff_enabled_witness:
  "exitsOf (newEvents exState (Fatal exFmt exEnv exLogger ''boom'' exState)) = [1]
   \<and> take 2 (newEvents exState (Fatal exFmt exEnv exLogger ''boom'' exState)) =
       [EvWrite exCore (entryOf exEnv exLogger ZapFatalLevel ''boom''), EvExit 1]
   \<and> exitedWith (Fatal exFmt exEnv exLogger ''boom'' exState) = Some 1
   \<and> exitsOf (newEvents exState (Fatalf exFmt exEnv exLogger ''boom'' [] exState)) = [1]
   \<and> Fatalf exFmt exEnv (SetOutputLevel exLogger NoneLevel) ''boom'' [] exState =
       Returned () exState"
  using fatal_exit_iff_enabled [OF exLogger_fields exState_funcs exFuncs_fields,
          of exFmt exEnv "''boom''" "''boom''" "[]"]
    fatal_exit_iff_enabled [of "SetOutputLevel exLogger NoneLevel" NoneLevel NoneLevel False
          exState _ exCore exFmt exEnv "''boom''" "''boom''" "[]"]
  by (simp add: Level_defs exFmt_def SetOutputLevel_def exLogger_def exState_funcs)

text \<open>
  Claim C1 as stated fails: with the output level None, \<open>Fatal\<close> returns without
  writing and without calling the exit function.
\<close>

theorem fatal_at_none_counterexample:
  "Fatal exFmt exEnv (SetOutputLevel exLogger NoneLevel) ''boom'' exState = Returned () exState
   \<and> exitsOf (newEvents exState
        (Fatal exFmt exEnv (SetOutputLevel exLogger NoneLevel) ''boom'' exState)) = []
   \<and> exitedWith (Fatal exFmt exEnv (SetOutputLevel exLogger NoneLevel) ''boom'' exState) = None"
  by (simp add: Fatal_def GetOutputLevel_def SetOutputLevel_def Level_defs newEvents_same)

section \<open>Write failures\<close>

text \<open>
  Claim C8, as amended. On a logger whose settings are stored, with a write function
  installed: every call of Debug, Info, Warn, Error and their formatted variants
  returns normally, and so does every call of Fatal and Fatalf when the installed exit
  function returns; if such a call is enabled and its write fails, what it does after the
  write (and, for a fatal entry, the exit call) is exactly one diagnostic line on the
  error sink of the installed table followed by a sync of that sink, and the error goes
  no further. An enabled Fatal or Fatalf with \<^verbatim>\<open>os.Exit\<close> installed ends the process
  with status 1 right after the write, whatever the write returned, and reports nothing.
\<close>

theorem write_failure_swallowed:
  assumes "outputLevel l = Some t" "stackTraceLevel l = Some st" "logCallers l = Some lc"
    and "funcs s = Some ft" "ftWrite ft = Some core"
  shows "((\<not> isFatalCall c \<or> exitProcess ft = ExitStub) \<longrightarrow> returned (invoke fm e l c s))
       \<and> ((\<not> isFatalCall c \<or> exitProcess ft = ExitStub) \<and> t \<ge> callLevel c
            \<and> coreWrite e core (entryOf e l (callZapLevel c) (callMessage fm c)) = Some err \<longrightarrow>
            newEvents s (invoke fm e l c s) =
              EvWrite core (entryOf e l (callZapLevel c) (callMessage fm c))
              # (if isFatalCall c then [EvExit 1] else [])
              @ [EvFprintf (errorSink ft) (now e) err, EvSinkSync (errorSink ft)])
       \<and> (isFatalCall c \<and> exitProcess ft = OsExit \<and> t \<ge> callLevel c \<longrightarrow>
            invoke fm e l c s =
              Exited 1 (emit [EvWrite core (entryOf e l (callZapLevel c) (callMessage fm c)),
                             EvExit 1] s))"
proof (intro conjI impI)
  assume "\<not> isFatalCall c \<or> exitProcess ft = ExitStub"
  then show "returned (invoke fm e l c s)"
    unfolding invoke_ready [OF assms] by (auto simp: Let_def)
next
  assume h: "(\<not> isFatalCall c \<or> exitProcess ft = ExitStub) \<and> t \<ge> callLevel c
            \<and> coreWrite e core (entryOf e l (callZapLevel c) (callMessage fm c)) = Some err"
  then show "newEvents s (invoke fm e l c s) =
              EvWrite core (entryOf e l (callZapLevel c) (callMessage fm c))
              # (if isFatalCall c then [EvExit 1] else [])
              @ [EvFprintf (errorSink ft) (now e) err, EvSinkSync (errorSink ft)]"
    unfolding invoke_ready [OF assms]
    by (auto simp: Let_def newEvents_emit diagnostic_def)
next
  assume "isFatalCall c \<and> exitProcess ft = OsExit \<and> t \<ge> callLevel c"
  then show "invoke fm e l c s =
              Exited 1 (emit [EvWrite core (entryOf e l (callZapLevel c) (callMessage fm c)),
                             EvExit 1] s)"
    unfolding invoke_ready [OF assms] by (simp add: Let_def)
qed

lemma exFailEnv_fields:
  "coreWrite exFailEnv c ent = Some ''disk full''" "now exFailEnv = exTime"
  by (simp_all add: exFailEnv_def exEnv_def)

theorem write_failure_swallowed_witness:
  "returned (Info exFmt exFailEnv exLogger ''hello'' exState)
   \<and> newEvents exState (Info exFmt exFailEnv exLogger ''hello'' exState) =
       [EvWrite exCore (entryOf exFailEnv exLogger ZapInfoLevel ''hello''),
        EvFprintf Stdout exTime ''disk full'', EvSinkSync Stdout]
   \<and> returned (Fatal exFmt exFailEnv exLogger ''boom'' exStubState)
   \<and> newEvents exStubState (Fatal exFmt exFailEnv exLogger ''boom'' exStubState) =
       [EvWrite exCore (entryOf exFailEnv exLogger ZapFatalLevel ''boom''), EvExit 1,
        EvFprintf Stdout exTime ''disk full'', EvSinkSync Stdout]
   \<and> Fatalf exFmt exFailEnv exLogger ''boom'' [] exState =
       Exited 1 (emit [EvWrite exCore (entryOf exFailEnv exLogger ZapFatalLevel ''boom''),
                       EvExit 1] exState)"
  using write_failure_swallowed [OF exLogger_fields exState_funcs exFuncs_fields,
          of "CallInfo ''hello''" exFmt exFailEnv "''disk full''"]
    write_failure_swallowed [OF exLogger_fields exStubState_funcs exFuncs_fields,
          of "CallFatal ''boom''" exFmt exFailEnv "''disk full''"]
    write_failure_swallowed [OF exLogger_fields exState_funcs exFuncs_fields,
          of "CallFatalf ''boom'' []" exFmt exFailEnv "''disk full''"]
  by (simp add: Level_defs exFmt_def exFailEnv_fields maybeSprintf_def)

text \<open>
  Claim C8 as stated fails for \<open>Fatal\<close>: after \<^verbatim>\<open>init\<close>, with a sink whose writes fail,
  the call does not return; the process exits after the write and no diagnostic line
  reaches the error sink.
\<close>

theorem fatal_write_failure_counterexample:
  "returned (Fatal exFmt exFailEnv exLogger ''boom'' exState) = False
   \<and> exitedWith (Fatal exFmt exFailEnv exLogger ''boom'' exState) = Some 1
   \<and> newEvents exState (Fatal exFmt exFailEnv exLogger ''boom'' exState) =
       [EvWrite exCore (entryOf exFailEnv exLogger ZapFatalLevel ''boom''), EvExit 1]"
  by (simp add: Fatal_def GetOutputLevel_def exLogger_fields Level_defs
        logger_output_fatal [OF exLogger_fields(3,2) exState_funcs exFuncs_fields]
        newEvents_emit exFmt_def)

section \<open>Formatted variants without arguments\<close>

lemma entMessage_entryOf: "entMessage (entryOf e l level msg) = msg"
  by (simp add: entryOf_def)

lemma formatted_messages:
  assumes "ready l s" "callMessage fm c = format"
  shows "map entMessage (writesOf (newEvents s (invoke fm e l c s))) =
           (if enabledQuery l c = Some True then [format] else [])"
proof -
  from assms(1) obtain t st lc ft core where h:
    "outputLevel l = Some t" "stackTraceLevel l = Some st" "logCallers l = Some lc"
    "funcs s = Some ft" "ftWrite ft = Some core"
    by (rule ready_cases)
  show ?thesis
    unfolding invoke_ready [OF h] enabledQuery_unfold h(1) using assms(2)
    by (cases "exitProcess ft")
       (simp_all add: Let_def newEvents_emit newEvents_same writesOf_diagnostic
          entMessage_entryOf)
qed

text \<open>
  Claim C10. \<open>maybeSprintf\<close> with no arguments is the format string itself, whatever
  \<^verbatim>\<open>Sprintf\<close> would make of it, and with at least one argument it is \<^verbatim>\<open>Sprintf\<close>'s
  result. So each of Debugf, Infof, Warnf, Errorf and Fatalf, called with no arguments
  on a logger whose settings are stored and with a write function installed, writes
  an entry whose message is the format string, verbatim, when its level is enabled
  (and writes nothing otherwise).
\<close>

theorem formatted_without_args_verbatim:
  "maybeSprintf fm format [] = format
   \<and> (args \<noteq> [] \<longrightarrow> maybeSprintf fm format args = Sprintf fm format args)
   \<and> (ready l s \<longrightarrow>
        map entMessage (writesOf (newEvents s (Debugf fm e l format [] s))) =
          (if DebugEnabled l = Some True then [format] else [])
      \<and> map entMessage (writesOf (newEvents s (Infof fm e l format [] s))) =
          (if InfoEnabled l = Some True then [format] else [])
      \<and> map entMessage (writesOf (newEvents s (Warnf fm e l format [] s))) =
          (if WarnEnabled l = Some True then [format] else [])
      \<and> map entMessage (writesOf (newEvents s (Errorf fm e l format [] s))) =
          (if ErrorEnabled l = Some True then [format] else [])
      \<and> map entMessage (writesOf (newEvents s (Fatalf fm e l format [] s))) =
          (if FatalEnabled l = Some True then [format] else []))"
proof -
  have m: "maybeSprintf fm format [] = format"
    by (simp add: maybeSprintf_def)
  have a: "args \<noteq> [] \<longrightarrow> maybeSprintf fm format args = Sprintf fm format args"
    by (simp add: maybeSprintf_def)
  have w: "map entMessage (writesOf (newEvents s (Debugf fm e l format [] s))) =
          (if DebugEnabled l = Some True then [format] else [])
      \<and> map entMessage (writesOf (newEvents s (Infof fm e l format [] s))) =
          (if InfoEnabled l = Some True then [format] else [])
      \<and> map entMessage (writesOf (newEvents s (Warnf fm e l format [] s))) =
          (if WarnEnabled l = Some True then [format] else [])
      \<and> map entMessage (writesOf (newEvents s (Errorf fm e l format [] s))) =
          (if ErrorEnabled l = Some True then [format] else [])
      \<and> map entMessage (writesOf (newEvents s (Fatalf fm e l format [] s))) =
          (if FatalEnabled l = Some True then [format] else [])" if r: "ready l s"
    using formatted_messages [OF r, of fm "CallDebugf format []" format e]
      formatted_messages [OF r, of fm "CallInfof format []" format e]
      formatted_messages [OF r, of fm "CallWarnf format []" format e]
      formatted_messages [OF r, of fm "CallErrorf format []" format e]
      formatted_messages [OF r, of fm "CallFatalf format []" format e]
    by (simp add: m)
  show ?thesis using m a w by blast
qed

theorem formatted_without_args_verbatim_witness:
  "maybeSprintf exFmt ''100%s'' [''x''] = ''Sprintf:100%sx''
   \<and> ready exLogger exState
   \<and> map entMessage (writesOf (newEvents exState
        (Infof exFmt exEnv exLogger ''100%s'' [] exState))) = [''100%s'']
   \<and> map entMessage (writesOf (newEvents exState
        (Debugf exFmt exEnv exLogger ''100%s'' [] exState))) = []"
  using formatted_without_args_verbatim
          [of exFmt "''100%s''" "[''x'']" exLogger exState exEnv]
  by (simp add: exFmt_def ready_def exLogger_def exState_funcs InfoEnabled_def
        DebugEnabled_def GetOutputLevel_def Level_defs)

section \<open>Level names\<close>

text \<open>
  Claim C6. Each of the six levels has a name, one of the six lowercase names, and
  parsing that name gives the level back; a string that is not one of the six names
  does not parse; and whatever parses to a level is that level's name, so names and
  levels correspond one to one.
\<close>

theorem level_names_roundtrip:
  "(l \<in> {NoneLevel, FatalLevel, ErrorLevel, WarnLevel, InfoLevel, DebugLevel} \<longrightarrow>
      (\<exists>n. levelToString l = Some n \<and> n \<in> set levelListString \<and> stringToLevel n = Some l))
   \<and> (nm \<notin> set levelListString \<longrightarrow> stringToLevel nm = None)
   \<and> (stringToLevel nm = Some l \<longrightarrow>
        levelToString l = Some nm
        \<and> l \<in> {NoneLevel, FatalLevel, ErrorLevel, WarnLevel, InfoLevel, DebugLevel})"
proof (intro conjI impI)
  assume "l \<in> {NoneLevel, FatalLevel, ErrorLevel, WarnLevel, InfoLevel, DebugLevel}"
  then consider "l = NoneLevel" | "l = FatalLevel" | "l = ErrorLevel" | "l = WarnLevel"
    | "l = InfoLevel" | "l = DebugLevel" by blast
  then show "\<exists>n. levelToString l = Some n \<and> n \<in> set levelListString
                \<and> stringToLevel n = Some l"
    by cases
       (simp_all add: levelToString_def stringToLevel_def levelListString_def Level_defs)
next
  assume "nm \<notin> set levelListString"
  then show "stringToLevel nm = None"
    by (simp add: stringToLevel_def levelListString_def)
next
  assume p: "stringToLevel nm = Some l"
  then show "levelToString l = Some nm"
    by (simp add: stringToLevel_def levelToString_def Level_defs split: if_splits)
  from p show "l \<in> {NoneLevel, FatalLevel, ErrorLevel, WarnLevel, InfoLevel, DebugLevel}"
    by (simp add: stringToLevel_def split: if_splits)
qed

theorem level_names_roundtrip_witness:
  "WarnLevel \<in> {NoneLevel, FatalLevel, ErrorLevel, WarnLevel, InfoLevel, DebugLevel}
   \<and> (\<exists>n. levelToString WarnLevel = Some n \<and> n \<in> set levelListString
           \<and> stringToLevel n = Some WarnLevel)
   \<and> ''Warn'' \<notin> set levelListString
   \<and> stringToLevel ''Warn'' = None
   \<and> stringToLevel ''fatal'' = Some FatalLevel
   \<and> levelToString FatalLevel = Some ''fatal''"
  using level_names_roundtrip [of WarnLevel "''Warn''"]
    level_names_roundtrip [of FatalLevel "''fatal''"]
  by (simp add: levelListString_def stringToLevel_def)

section \<open>Default options\<close>

text \<open>
  Claim C4 (the code departs from it). \<open>DefaultOptions\<close> has the paths, level names,
  caller flag, age and backup count that the claim lists, but its \<open>RotationMaxSize\<close> is
  104857600, a field counted in megabytes: the cap it stands for is 104857600 megabytes,
  not 100.
\<close>

theorem DefaultOptions_value:
  "DefaultOptions =
     \<lparr>OutputPath = ''stdout'', ErrorOutputPath = ''stderr'', RotateOutputPath = [],
      RotationMaxSize = 104857600, RotationMaxAge = 30, RotationMaxBackups = 1000,
      JSONEncoding = False, OutputLevel = ''info'', StackTraceLevel = ''none'',
      LogCaller = False\<rparr>
   \<and> rotationCapBytes DefaultOptions = 104857600 * (1024 * 1024)
   \<and> rotationCapBytes (DefaultOptions\<lparr>RotationMaxSize := 100\<rparr>) = 100 * (1024 * 1024)"
  by (simp add: DefaultOptions_def DefaultOutputPath_def DefaultErrorOutputPath_def
        DefaultRotationMaxSize_def DefaultRotationMaxAge_def DefaultRotationMaxBackups_def
        index_or_def levelToString_def Level_defs rotationCapBytes_def int64_def)

section \<open>Configuration\<close>

lemma updateLogger_rejected:
  assumes "rejectedLevels opts"
  shows "map_option isInvalidLevel (fst (updateLogger opts s)) = Some True"
  using assms
  by (auto simp: rejectedLevels_def updateLogger_def Let_def split: option.splits)

lemma updateLogger_accepted:
  assumes "\<not> rejectedLevels opts"
  shows "fst (updateLogger opts s) = None"
  using assms
  by (auto simp: rejectedLevels_def updateLogger_def Let_def split: option.splits)

lemma updateLogger_rejected_settings:
  assumes "rejectedLevels opts"
  shows "curStackTraceLevel (snd (updateLogger opts s)) = curStackTraceLevel s"
    and "curLogCallers (snd (updateLogger opts s)) = curLogCallers s"
    and "stringToLevel (OutputLevel opts) = None \<longrightarrow>
           curOutputLevel (snd (updateLogger opts s)) = curOutputLevel s"
  using assms
  by (auto simp: rejectedLevels_def updateLogger_def Let_def curStackTraceLevel_def
        curLogCallers_def curOutputLevel_def SetOutputLevel_def split: option.splits)

lemma updateLogger_empty_stack:
  assumes "StackTraceLevel opts = []"
  shows "curStackTraceLevel (snd (updateLogger opts s)) = curStackTraceLevel s"
  using assms
  by (auto simp: updateLogger_def Let_def curStackTraceLevel_def SetOutputLevel_def
        SetLogCallers_def split: option.splits)

lemma prepZap_defaultLogger: "defaultLogger (snd (prepZap e opts s)) = defaultLogger s"
  by (auto simp: prepZap_def Let_def emit_def split: sum.splits option.splits prod.splits)

lemma zap_Open_error: "zap_Open e n p = Inl err \<Longrightarrow> \<not> isInvalidLevel err"
  by (auto simp: zap_Open_def split: if_splits option.splits)

lemma prepZap_error: "fst (prepZap e opts s) = Inl err \<Longrightarrow> \<not> isInvalidLevel err"
  by (auto simp: prepZap_def Let_def split: sum.splits option.splits prod.splits if_splits
        dest: zap_Open_error)

lemma Configure_rejected:
  assumes "fst (updateLogger opts s) = Some err"
  shows "Configure e opts s = Returned (Some err) (snd (updateLogger opts s))"
  using assms by (cases "updateLogger opts s") (simp add: Configure_def)

lemma Configure_defaultLogger:
  "defaultLogger (final (Configure e opts s)) = defaultLogger (snd (updateLogger opts s))"
proof (cases "updateLogger opts s")
  case (Pair r s1)
  show ?thesis
  proof (cases r)
    case (Some err)
    with Pair show ?thesis by (simp add: Configure_def)
  next
    case None
    obtain pr s2 where p: "prepZap e opts s1 = (pr, s2)" by (cases "prepZap e opts s1")
    have d: "defaultLogger s2 = defaultLogger s1"
      using prepZap_defaultLogger [of e opts s1] p by simp
    show ?thesis
      using Pair None p d
      by (auto simp: Configure_def Let_def emit_def split: sum.splits option.splits)
  qed
qed

lemma Configure_accepted:
  assumes "fst (updateLogger opts s) = None"
  shows "map_option isInvalidLevel (returnedError (Configure e opts s)) \<noteq> Some True"
proof -
  obtain s1 where u: "updateLogger opts s = (None, s1)"
    using assms by (cases "updateLogger opts s") simp
  obtain pr s2 where p: "prepZap e opts s1 = (pr, s2)" by (cases "prepZap e opts s1")
  show ?thesis
  proof (cases pr)
    case (Inl err)
    then have "\<not> isInvalidLevel err" using prepZap_error [of e opts s1 err] p by simp
    then show ?thesis using u p Inl by (simp add: Configure_def)
  next
    case (Inr x)
    then show ?thesis
      using u p by (auto simp: Configure_def Let_def split: option.splits prod.splits)
  qed
qed

lemma cur_final_Configure:
  "curOutputLevel (final (Configure e opts s)) = curOutputLevel (snd (updateLogger opts s))"
  "curStackTraceLevel (final (Configure e opts s)) =
     curStackTraceLevel (snd (updateLogger opts s))"
  "curLogCallers (final (Configure e opts s)) = curLogCallers (snd (updateLogger opts s))"
  by (simp_all add: curOutputLevel_def curStackTraceLevel_def curLogCallers_def
        Configure_defaultLogger)

text \<open>
  Claim C3, as amended. When \<open>OutputLevel\<close> does not parse, or \<open>StackTraceLevel\<close> is
  not empty and does not parse, \<open>Configure\<close> returns an invalid-level error, and the
  failed call changes neither the stack-trace level nor the caller flag of the default
  logger; when it is \<open>OutputLevel\<close> that does not parse, the output level is unchanged
  as well.
\<close>

theorem invalid_level_keeps_settings:
  assumes "rejectedLevels opts"
  shows "map_option isInvalidLevel (returnedError (Configure e opts s)) = Some True
       \<and> curStackTraceLevel (final (Configure e opts s)) = curStackTraceLevel s
       \<and> curLogCallers (final (Configure e opts s)) = curLogCallers s
       \<and> (stringToLevel (OutputLevel opts) = None \<longrightarrow>
            curOutputLevel (final (Configure e opts s)) = curOutputLevel s)"
proof -
  from updateLogger_rejected [OF assms, of s] obtain err where
    err: "fst (updateLogger opts s) = Some err" "isInvalidLevel err"
    by (cases "fst (updateLogger opts s)") auto
  have "returnedError (Configure e opts s) = Some err"
    by (simp add: Configure_rejected [OF err(1)])
  then show ?thesis
    using err(2) updateLogger_rejected_settings [OF assms, of s]
    by (simp add: cur_final_Configure)
qed

lemma exState_settings:
  "curOutputLevel exState = Some InfoLevel"
  "curStackTraceLevel exState = Some NoneLevel"
  "curLogCallers exState = Some False"
  by (simp_all add: curOutputLevel_def curStackTraceLevel_def curLogCallers_def
        exState_logger exLogger_def)

theorem invalid_level_keeps_settings_witness:
  "rejectedLevels (DefaultOptions\<lparr>OutputLevel := ''verbose'', LogCaller := True\<rparr>)
   \<and> map_option isInvalidLevel (returnedError
        (Configure exEnv (DefaultOptions\<lparr>OutputLevel := ''verbose'', LogCaller := True\<rparr>)
           exState)) = Some True
   \<and> curOutputLevel (final
        (Configure exEnv (DefaultOptions\<lparr>OutputLevel := ''verbose'', LogCaller := True\<rparr>)
           exState)) = Some InfoLevel
   \<and> curStackTraceLevel (final
        (Configure exEnv (DefaultOptions\<lparr>OutputLevel := ''verbose'', LogCaller := True\<rparr>)
           exState)) = Some NoneLevel
   \<and> curLogCallers (final
        (Configure exEnv (DefaultOptions\<lparr>OutputLevel := ''verbose'', LogCaller := True\<rparr>)
           exState)) = Some False"
  using invalid_level_keeps_settings
          [of "DefaultOptions\<lparr>OutputLevel := ''verbose'', LogCaller := True\<rparr>" exEnv exState]
  by (simp add: rejectedLevels_def stringToLevel_def exState_settings)

text \<open>
  Claim C3 as stated fails twice over. After \<^verbatim>\<open>init\<close> (output level Info), a call with
  output level \<open>debug\<close> and the unknown stack-trace level \<open>bogus\<close> returns an error and
  leaves the output level at Debug; and a call whose stack-trace level is the empty
  string, which is none of the six names, returns no error.
\<close>

theorem invalid_stack_level_counterexample:
  "returnedError
     (Configure exEnv (DefaultOptions\<lparr>OutputLevel := ''debug'', StackTraceLevel := ''bogus''\<rparr>)
        exState) = Some (InvalidStackTraceLevel ''debug'')
   \<and> curOutputLevel exState = Some InfoLevel
   \<and> curOutputLevel (final
        (Configure exEnv (DefaultOptions\<lparr>OutputLevel := ''debug'', StackTraceLevel := ''bogus''\<rparr>)
           exState)) = Some DebugLevel
   \<and> stringToLevel [] = None
   \<and> Configure exEnv (DefaultOptions\<lparr>OutputLevel := ''warn'', StackTraceLevel := []\<rparr>) exState
       = Returned None
           (final (Configure exEnv
              (DefaultOptions\<lparr>OutputLevel := ''warn'', StackTraceLevel := []\<rparr>) exState))"
  by code_simp

text \<open>
  Claim C9, as amended. \<open>Configure\<close> returns an invalid-level error exactly when
  \<open>OutputLevel\<close> does not parse to one of the six level names, or \<open>StackTraceLevel\<close> is not
  empty and does not parse. An empty \<open>StackTraceLevel\<close> is not looked up at all: it is
  accepted, and the stack-trace level of the default logger stays as it was.
\<close>

theorem invalid_level_rejected_iff:
  "(map_option isInvalidLevel (returnedError (Configure e opts s)) = Some True)
     = (stringToLevel (OutputLevel opts) = None
        \<or> (StackTraceLevel opts \<noteq> [] \<and> stringToLevel (StackTraceLevel opts) = None))
   \<and> (StackTraceLevel opts = [] \<longrightarrow>
        curStackTraceLevel (final (Configure e opts s)) = curStackTraceLevel s)"
proof (intro conjI impI)
  show "(map_option isInvalidLevel (returnedError (Configure e opts s)) = Some True)
     = (stringToLevel (OutputLevel opts) = None
        \<or> (StackTraceLevel opts \<noteq> [] \<and> stringToLevel (StackTraceLevel opts) = None))"
  proof -
    have "(map_option isInvalidLevel (returnedError (Configure e opts s)) = Some True)
            = rejectedLevels opts"
    proof (cases "rejectedLevels opts")
      case True
      from updateLogger_rejected [OF True, of s] obtain err where
        err: "fst (updateLogger opts s) = Some err" "isInvalidLevel err"
        by (cases "fst (updateLogger opts s)") auto
      show ?thesis
        using True err(2) by (simp add: Configure_rejected [OF err(1)])
    next
      case False
      then show ?thesis
        using Configure_accepted [OF updateLogger_accepted [OF False], of e s] by simp
    qed
    then show ?thesis by (simp only: rejectedLevels_def)
  qed
next
  assume "StackTraceLevel opts = []"
  then show "curStackTraceLevel (final (Configure e opts s)) = curStackTraceLevel s"
    by (simp add: cur_final_Configure updateLogger_empty_stack)
qed

theorem invalid_level_rejected_iff_witness:
  "map_option isInvalidLevel (returnedError
     (Configure exEnv (DefaultOptions\<lparr>StackTraceLevel := ''trace''\<rparr>) exState)) = Some True
   \<and> StackTraceLevel (DefaultOptions\<lparr>OutputLevel := ''error'', StackTraceLevel := []\<rparr>) = []
   \<and> curStackTraceLevel (final
        (Configure exEnv (DefaultOptions\<lparr>OutputLevel := ''error'', StackTraceLevel := []\<rparr>)
           exState)) = Some NoneLevel"
  using invalid_level_rejected_iff [of exEnv "DefaultOptions\<lparr>StackTraceLevel := ''trace''\<rparr>" exState]
    invalid_level_rejected_iff
      [of exEnv "DefaultOptions\<lparr>OutputLevel := ''error'', StackTraceLevel := []\<rparr>" exState]
  by (simp add: stringToLevel_def exState_settings)

text \<open>
  Claim C9 as stated fails on the empty string: after \<^verbatim>\<open>init\<close>, the default options
  with \<open>StackTraceLevel\<close> empty configure without error.
\<close>

theorem empty_stack_level_counterexample:
  "stringToLevel (StackTraceLevel (DefaultOptions\<lparr>StackTraceLevel := []\<rparr>)) = None
   \<and> returned (Configure exEnv (DefaultOptions\<lparr>StackTraceLevel := []\<rparr>) exState) = True
   \<and> returnedError (Configure exEnv (DefaultOptions\<lparr>StackTraceLevel := []\<rparr>) exState) = None"
  by code_simp

section \<open>Sink assembly\<close>

lemma prepZap_ignores_ErrorOutputPath:
  "prepZap e (opts\<lparr>ErrorOutputPath := p\<rparr>) s = prepZap e opts s"
  by (simp add: prepZap_def Let_def cong: sum.case_cong if_cong)

text \<open>
  Claim C2 (the code departs from it). \<open>prepZap\<close> never reads \<open>ErrorOutputPath\<close>:
  its result is the same whatever that field holds, and the error sink is what opening
  \<open>OutputPath\<close> gave. After \<^verbatim>\<open>init\<close> with the default options the error sink is standard
  output, not standard error; and the default options with an error path that cannot
  be opened configure without error, opening \<open>stdout\<close> twice and nothing else.
\<close>

theorem error_sink_opened_from_OutputPath:
  "prepZap e (opts\<lparr>ErrorOutputPath := p\<rparr>) s = prepZap e opts s
   \<and> ErrorOutputPath DefaultOptions = ''stderr''
   \<and> map_option errorSink (funcs (init exEnv state0)) = Some Stdout
   \<and> zap_Open exEnv n ''/no/such/dir/err.log'' = Inl (SinkOpenError ''/no/such/dir/err.log'')
   \<and> returned (Configure exEnv
        (DefaultOptions\<lparr>ErrorOutputPath := ''/no/such/dir/err.log''\<rparr>) exState) = True
   \<and> returnedError (Configure exEnv
        (DefaultOptions\<lparr>ErrorOutputPath := ''/no/such/dir/err.log''\<rparr>) exState) = None
   \<and> map_option errorSink (funcs (final (Configure exEnv
        (DefaultOptions\<lparr>ErrorOutputPath := ''/no/such/dir/err.log''\<rparr>) exState))) = Some Stdout
   \<and> opensOf (newEvents exState (Configure exEnv
        (DefaultOptions\<lparr>ErrorOutputPath := ''/no/such/dir/err.log''\<rparr>) exState))
       = [''stdout'', ''stdout'']"
proof -
  have a: "ErrorOutputPath DefaultOptions = ''stderr''"
    by (simp add: DefaultOptions_def DefaultErrorOutputPath_def)
  have b: "map_option errorSink (funcs (init exEnv state0)) = Some Stdout"
    using exState_funcs by (simp add: exState_def)
  have c: "zap_Open exEnv n ''/no/such/dir/err.log''
             = Inl (SinkOpenError ''/no/such/dir/err.log'')"
    by (simp add: zap_Open_def exEnv_def)
  have d: "returned (Configure exEnv
        (DefaultOptions\<lparr>ErrorOutputPath := ''/no/such/dir/err.log''\<rparr>) exState) = True"
    by code_simp
  have f: "returnedError (Configure exEnv
        (DefaultOptions\<lparr>ErrorOutputPath := ''/no/such/dir/err.log''\<rparr>) exState) = None"
    by code_simp
  have g: "map_option errorSink (funcs (final (Configure exEnv
        (DefaultOptions\<lparr>ErrorOutputPath := ''/no/such/dir/err.log''\<rparr>) exState))) = Some Stdout"
    by code_simp
  have h: "opensOf (newEvents exState (Configure exEnv
        (DefaultOptions\<lparr>ErrorOutputPath := ''/no/such/dir/err.log''\<rparr>) exState))
       = [''stdout'', ''stdout'']"
    by code_simp
  show ?thesis
    using prepZap_ignores_ErrorOutputPath a b c d f g h by blast
qed

section \<open>Timestamps\<close>

lemma sdiv_smod_nonneg:
  "0 \<le> a \<Longrightarrow> 0 < b \<Longrightarrow> (a::int) sdiv b = a div b"
  "0 \<le> a \<Longrightarrow> 0 < b \<Longrightarrow> (a::int) smod b = a mod b"
  by (auto simp: signed_divide_int_def signed_modulo_int_def sgn_if)

lemma digit_byte:
  assumes "0 \<le> d" "d \<le> 9"
  shows "char_of (unat (byte d + of_char CHR ''0'')) = digit_char (nat d)"
proof -
  from assms have "d = 0 \<or> d = 1 \<or> d = 2 \<or> d = 3 \<or> d = 4 \<or> d = 5 \<or> d = 6 \<or> d = 7
      \<or> d = 8 \<or> d = 9" by presburger
  then show ?thesis
    by (elim disjE) (simp_all add: byte_def digit_char_def)
qed

lemma length_decimal: "length (decimal w n) = w"
  by (induction w arbitrary: n) simp_all

lemma is_digit_digit_char: "d < 10 \<Longrightarrow> is_digit (digit_char d)"
  by (simp add: is_digit_def digit_char_def)

lemma digit_value_digit_char: "d < 10 \<Longrightarrow> digit_value (digit_char d) = d"
  by (simp add: digit_value_def digit_char_def)

lemma digits_decimal: "list_all is_digit (decimal w n)"
  by (induction w arbitrary: n) (simp_all add: is_digit_digit_char)

lemma decimal_value_append:
  "decimal_value (cs @ [c]) = 10 * decimal_value cs + digit_value c"
  by (simp add: decimal_value_def)

lemma decimal_value_decimal: "n < 10 ^ w \<Longrightarrow> decimal_value (decimal w n) = n"
proof (induction w arbitrary: n)
  case 0
  then show ?case by (simp add: decimal_value_def)
next
  case (Suc w)
  then have "n div 10 < 10 ^ w" by (simp add: less_mult_imp_div_less mult.commute)
  then show ?case
    using Suc.IH [of "n div 10"]
    by (simp add: decimal_value_append digit_value_digit_char)
qed


lemma go_digit:
  assumes "0 \<le> a" "0 < k"
  shows "char_of (unat (byte ((a sdiv k) smod 10) + of_char CHR ''0''))
           = digit_char (nat a div nat k mod 10)"
proof -
  have q: "0 \<le> a div k" using assms by (simp add: pos_imp_zdiv_nonneg_iff)
  have e: "(a sdiv k) smod 10 = a div k mod 10"
    using assms q by (simp add: sdiv_smod_nonneg)
  have n: "nat (a div k mod 10) = nat a div nat k mod 10"
    using assms q by (simp add: nat_div_distrib nat_mod_distrib)
  show ?thesis
    unfolding e using digit_byte [of "a div k mod 10"] n by simp
qed

lemma go_digit_last:
  assumes "0 \<le> a"
  shows "char_of (unat (byte (a smod 10) + of_char CHR ''0'')) = digit_char (nat a mod 10)"
proof -
  have e: "a smod 10 = a mod 10" using assms by (simp add: sdiv_smod_nonneg)
  have n: "nat (a mod 10) = nat a mod 10" using assms by (simp add: nat_mod_distrib)
  show ?thesis unfolding e using digit_byte [of "a mod 10"] n by simp
qed

lemma go_digit_tens:
  assumes "0 \<le> a" "a < 100"
  shows "char_of (unat (byte (a sdiv 10) + of_char CHR ''0'')) = digit_char (nat a div 10 mod 10)"
proof -
  have e: "a sdiv 10 = a div 10" using assms by (simp add: sdiv_smod_nonneg)
  have b: "0 \<le> a div 10" "a div 10 \<le> 9" using assms by simp_all
  have n: "nat (a div 10) = nat a div 10 mod 10"
    using assms by (simp add: nat_div_distrib)
  show ?thesis unfolding e using digit_byte [OF b] n by simp
qed

lemma div10:
  "n div 10 div 10 = n div 100" "n div 100 div 10 = n div 1000"
  "n div 1000 div 10 = n div 10000" "n div 10000 div 10 = n div 100000" for n :: nat
  by (simp_all add: div_mult2_eq [symmetric])

lemma decimal_2: "decimal 2 n = [digit_char (n div 10 mod 10), digit_char (n mod 10)]"
proof -
  have "decimal (Suc (Suc 0)) n = [digit_char (n div 10 mod 10), digit_char (n mod 10)]"
    by (simp only: decimal.simps append.simps)
  then show ?thesis by (simp only: numeral_2_eq_2)
qed

lemma decimal_4:
  "decimal 4 n = [digit_char (n div 1000 mod 10), digit_char (n div 100 mod 10),
                  digit_char (n div 10 mod 10), digit_char (n mod 10)]"
proof -
  have "decimal (Suc (Suc (Suc (Suc 0)))) n =
      [digit_char (n div 1000 mod 10), digit_char (n div 100 mod 10),
       digit_char (n div 10 mod 10), digit_char (n mod 10)]"
    by (simp only: decimal.simps append.simps div10)
  moreover have "(4::nat) = Suc (Suc (Suc (Suc 0)))" by simp
  ultimately show ?thesis by (simp only:)
qed

lemma decimal_6:
  "decimal 6 n = [digit_char (n div 100000 mod 10), digit_char (n div 10000 mod 10),
                  digit_char (n div 1000 mod 10), digit_char (n div 100 mod 10),
                  digit_char (n div 10 mod 10), digit_char (n mod 10)]"
proof -
  have "decimal (Suc (Suc (Suc (Suc (Suc (Suc 0)))))) n =
      [digit_char (n div 100000 mod 10), digit_char (n div 10000 mod 10),
       digit_char (n div 1000 mod 10), digit_char (n div 100 mod 10),
       digit_char (n div 10 mod 10), digit_char (n mod 10)]"
    by (simp only: decimal.simps append.simps div10)
  moreover have "(6::nat) = Suc (Suc (Suc (Suc (Suc (Suc 0)))))" by simp
  ultimately show ?thesis by (simp only:)
qed

lemma separators:
  "char_of (unat (of_char CHR ''-'' :: 8 word)) = CHR ''-''"
  "char_of (unat (of_char CHR ''T'' :: 8 word)) = CHR ''T''"
  "char_of (unat (of_char CHR '':'' :: 8 word)) = CHR '':''"
  "char_of (unat (of_char CHR ''.'' :: 8 word)) = CHR ''.''"
  "char_of (unat (of_char CHR ''Z'' :: 8 word)) = CHR ''Z''"
  by code_simp+

lemma formatDate_spec:
  assumes "calendar_ranges (utc t0)" "four_digit_year (utc t0)"
  shows "formatDate utc t0 = spec_timestamp (utc t0)"
proof -
  define t where "t = utc t0"
  note assms = assms [folded t_def]
  have y: "0 \<le> year t" using assms(2) by (simp add: four_digit_year_def)
  have r: "0 \<le> month t" "month t < 100" "0 \<le> day t" "day t < 100"
    "0 \<le> hour t" "hour t < 100" "0 \<le> minute t" "minute t < 100"
    "0 \<le> second t" "second t < 100" "0 \<le> nanosecond t"
    using assms(1) by (simp_all add: calendar_ranges_def)
  have m: "nanosecond t sdiv 1000 = nanosecond t div 1000"
    using r(11) by (simp add: sdiv_smod_nonneg)
  have m0: "0 \<le> nanosecond t div 1000" using r(11) by simp
  have mn: "nat (nanosecond t div 1000) = nat (nanosecond t) div 1000"
    using r(11) by (simp add: nat_div_distrib)
  have k: "nat 100000 = 100000" "nat 10000 = 10000" "nat 1000 = 1000" "nat 100 = 100"
    "nat 10 = 10" by simp_all
  note d =
    go_digit [OF y, of 1000] go_digit [OF y, of 100] go_digit [OF y, of 10]
    go_digit_last [OF y]
    go_digit_tens [OF r(1,2)] go_digit_last [OF r(1)]
    go_digit_tens [OF r(3,4)] go_digit_last [OF r(3)]
    go_digit_tens [OF r(5,6)] go_digit_last [OF r(5)]
    go_digit_tens [OF r(7,8)] go_digit_last [OF r(7)]
    go_digit_tens [OF r(9,10)] go_digit_last [OF r(9)]
    go_digit [OF m0, of 100000] go_digit [OF m0, of 10000] go_digit [OF m0, of 1000]
    go_digit [OF m0, of 100] go_digit [OF m0, of 10] go_digit_last [OF m0]
  have lhs: "formatDate utc t0 =
    [digit_char (nat (year t) div 1000 mod 10), digit_char (nat (year t) div 100 mod 10),
     digit_char (nat (year t) div 10 mod 10), digit_char (nat (year t) mod 10), CHR ''-'',
     digit_char (nat (month t) div 10 mod 10), digit_char (nat (month t) mod 10), CHR ''-'',
     digit_char (nat (day t) div 10 mod 10), digit_char (nat (day t) mod 10), CHR ''T'',
     digit_char (nat (hour t) div 10 mod 10), digit_char (nat (hour t) mod 10), CHR '':'',
     digit_char (nat (minute t) div 10 mod 10), digit_char (nat (minute t) mod 10), CHR '':'',
     digit_char (nat (second t) div 10 mod 10), digit_char (nat (second t) mod 10), CHR ''.'',
     digit_char (nat (nanosecond t) div 1000 div 100000 mod 10),
     digit_char (nat (nanosecond t) div 1000 div 10000 mod 10),
     digit_char (nat (nanosecond t) div 1000 div 1000 mod 10),
     digit_char (nat (nanosecond t) div 1000 div 100 mod 10),
     digit_char (nat (nanosecond t) div 1000 div 10 mod 10),
     digit_char (nat (nanosecond t) div 1000 mod 10), CHR ''Z'']"
    unfolding formatDate_def Let_def string_of_bytes_def list.map t_def [symmetric] m
    by (simp only: d separators mn k zero_less_numeral simp_thms)
  show ?thesis
    unfolding lhs t_def [symmetric] spec_timestamp_def decimal_2 decimal_4 decimal_6
    by (simp only: append.simps)
qed

lemma length_formatDate: "length (formatDate utc t) = 27"
  by (simp add: formatDate_def Let_def string_of_bytes_def)

lemma spec_timestamp_parts:
  "length (spec_timestamp t) = 27"
  "take 4 (spec_timestamp t) = decimal 4 (nat (year t))"
  "take 2 (drop 5 (spec_timestamp t)) = decimal 2 (nat (month t))"
  "take 2 (drop 8 (spec_timestamp t)) = decimal 2 (nat (day t))"
  "take 2 (drop 11 (spec_timestamp t)) = decimal 2 (nat (hour t))"
  "take 2 (drop 14 (spec_timestamp t)) = decimal 2 (nat (minute t))"
  "take 2 (drop 17 (spec_timestamp t)) = decimal 2 (nat (second t))"
  "take 6 (drop 20 (spec_timestamp t)) = decimal 6 (nat (nanosecond t) div 1000)"
  "spec_timestamp t ! 4 = CHR ''-''" "spec_timestamp t ! 7 = CHR ''-''"
  "spec_timestamp t ! 10 = CHR ''T''" "spec_timestamp t ! 13 = CHR '':''"
  "spec_timestamp t ! 16 = CHR '':''" "spec_timestamp t ! 19 = CHR ''.''"
  "spec_timestamp t ! 26 = CHR ''Z''"
  by (simp_all add: spec_timestamp_def length_decimal nth_append)


lemma timePattern_spec_timestamp: "timePattern (spec_timestamp t)"
  unfolding timePattern_def spec_timestamp_parts
  by (simp add: digits_decimal)

lemma decoded_spec_timestamp:
  assumes "calendar_ranges t" "four_digit_year t"
  shows "decimal_value (decimal 4 (nat (year t))) = nat (year t)"
    and "decimal_value (decimal 2 (nat (month t))) = nat (month t)"
    and "decimal_value (decimal 2 (nat (day t))) = nat (day t)"
    and "decimal_value (decimal 2 (nat (hour t))) = nat (hour t)"
    and "decimal_value (decimal 2 (nat (minute t))) = nat (minute t)"
    and "decimal_value (decimal 2 (nat (second t))) = nat (second t)"
    and "decimal_value (decimal 6 (nat (nanosecond t) div 1000)) = nat (nanosecond t) div 1000"
proof -
  have "nat (year t) < 10000" using assms(2) unfolding four_digit_year_def by linarith
  then have "nat (year t) < 10 ^ 4" by simp
  then show "decimal_value (decimal 4 (nat (year t))) = nat (year t)"
    by (rule decimal_value_decimal)
  have "nat (month t) < 100" using assms(1) unfolding calendar_ranges_def by linarith
  then have "nat (month t) < 10 ^ 2" by simp
  then show "decimal_value (decimal 2 (nat (month t))) = nat (month t)"
    by (rule decimal_value_decimal)
  have "nat (day t) < 100" using assms(1) unfolding calendar_ranges_def by linarith
  then have "nat (day t) < 10 ^ 2" by simp
  then show "decimal_value (decimal 2 (nat (day t))) = nat (day t)"
    by (rule decimal_value_decimal)
  have "nat (hour t) < 100" using assms(1) unfolding calendar_ranges_def by linarith
  then have "nat (hour t) < 10 ^ 2" by simp
  then show "decimal_value (decimal 2 (nat (hour t))) = nat (hour t)"
    by (rule decimal_value_decimal)
  have "nat (minute t) < 100" using assms(1) unfolding calendar_ranges_def by linarith
  then have "nat (minute t) < 10 ^ 2" by simp
  then show "decimal_value (decimal 2 (nat (minute t))) = nat (minute t)"
    by (rule decimal_value_decimal)
  have "nat (second t) < 100" using assms(1) unfolding calendar_ranges_def by linarith
  then have "nat (second t) < 10 ^ 2" by simp
  then show "decimal_value (decimal 2 (nat (second t))) = nat (second t)"
    by (rule decimal_value_decimal)
  have "nat (nanosecond t) < 1000000000"
    using assms(1) unfolding calendar_ranges_def by linarith
  then have "nat (nanosecond t) div 1000 < 10 ^ 6" by simp
  then show "decimal_value (decimal 6 (nat (nanosecond t) div 1000))
               = nat (nanosecond t) div 1000"
    by (rule decimal_value_decimal)
qed


lemma digit_chars:
  "digit_char 0 = CHR ''0''" "digit_char 1 = CHR ''1''" "digit_char 2 = CHR ''2''"
  "digit_char 3 = CHR ''3''" "digit_char 4 = CHR ''4''" "digit_char 5 = CHR ''5''"
  "digit_char 6 = CHR ''6''" "digit_char 7 = CHR ''7''" "digit_char 8 = CHR ''8''"
  "digit_char 9 = CHR ''9''" "digit_char (Suc 0) = CHR ''1''"
  by code_simp+

lemma spec_timestamp_exTime: "spec_timestamp exTime = ''2024-03-09T07:05:01.123456Z''"
  by (simp add: spec_timestamp_def exTime_def decimal_2 decimal_4 decimal_6 digit_chars)

text \<open>
  Claim C7, as amended. For every input time the encoder emits exactly 27 characters.
  It converts the time to UTC first, and for every input time whose year in UTC is
  between 0 and 9999 (the other fields of the converted time being in their calendar
  ranges, as the standard library keeps them), the 27 characters are
  \<open>YYYY-MM-DDTHH:MM:SS.mmmmmmZ\<close>: digits and the literal separators and trailing \<open>Z\<close> in
  their places, the digit groups being the decimal numerals of the year, month, day,
  hour, minute, second and microsecond of the time in UTC, whatever the location of
  the input.
\<close>

theorem formatDate_four_digit_years:
  "length (formatDate utc t) = 27
   \<and> (calendar_ranges (utc t) \<and> four_digit_year (utc t) \<longrightarrow>
        formatDate utc t = spec_timestamp (utc t)
        \<and> timePattern (formatDate utc t)
        \<and> decimal_value (take 4 (formatDate utc t)) = nat (year (utc t))
        \<and> decimal_value (take 2 (drop 5 (formatDate utc t))) = nat (month (utc t))
        \<and> decimal_value (take 2 (drop 8 (formatDate utc t))) = nat (day (utc t))
        \<and> decimal_value (take 2 (drop 11 (formatDate utc t))) = nat (hour (utc t))
        \<and> decimal_value (take 2 (drop 14 (formatDate utc t))) = nat (minute (utc t))
        \<and> decimal_value (take 2 (drop 17 (formatDate utc t))) = nat (second (utc t))
        \<and> decimal_value (take 6 (drop 20 (formatDate utc t)))
            = nat (nanosecond (utc t)) div 1000)"
proof (intro conjI impI)
  show "length (formatDate utc t) = 27" by (rule length_formatDate)
next
  assume h: "calendar_ranges (utc t) \<and> four_digit_year (utc t)"
  then have c: "calendar_ranges (utc t)" and f: "four_digit_year (utc t)" by simp_all
  note e = formatDate_spec [of utc t, OF c f]
  note v = decoded_spec_timestamp [OF c f]
  show "formatDate utc t = spec_timestamp (utc t)" by (rule e)
  show "timePattern (formatDate utc t)" unfolding e by (rule timePattern_spec_timestamp)
  show "decimal_value (take 4 (formatDate utc t)) = nat (year (utc t))"
    unfolding e spec_timestamp_parts by (rule v)
  show "decimal_value (take 2 (drop 5 (formatDate utc t))) = nat (month (utc t))"
    unfolding e spec_timestamp_parts by (rule v)
  show "decimal_value (take 2 (drop 8 (formatDate utc t))) = nat (day (utc t))"
    unfolding e spec_timestamp_parts by (rule v)
  show "decimal_value (take 2 (drop 11 (formatDate utc t))) = nat (hour (utc t))"
    unfolding e spec_timestamp_parts by (rule v)
  show "decimal_value (take 2 (drop 14 (formatDate utc t))) = nat (minute (utc t))"
    unfolding e spec_timestamp_parts by (rule v)
  show "decimal_value (take 2 (drop 17 (formatDate utc t))) = nat (second (utc t))"
    unfolding e spec_timestamp_parts by (rule v)
  show "decimal_value (take 6 (drop 20 (formatDate utc t)))
          = nat (nanosecond (utc t)) div 1000"
    unfolding e spec_timestamp_parts by (rule v)
qed

lemma exTime_ranges: "calendar_ranges exTime" "four_digit_year exTime"
  by (simp_all add: calendar_ranges_def four_digit_year_def exTime_def)

lemma exUTC_exLocalTime: "exUTC exLocalTime = exTime"
  by (simp add: exUTC_def exLocalTime_def exTime_def)

theorem formatDate_four_digit_years_witness:
  "utcOffset exLocalTime = 7200 \<and> hour exLocalTime = 9
   \<and> calendar_ranges (exUTC exLocalTime) \<and> four_digit_year (exUTC exLocalTime)
   \<and> formatDate exUTC exLocalTime = ''2024-03-09T07:05:01.123456Z''
   \<and> timePattern (formatDate exUTC exLocalTime)
   \<and> decimal_value (take 4 (formatDate exUTC exLocalTime)) = 2024
   \<and> decimal_value (take 2 (drop 11 (formatDate exUTC exLocalTime))) = 7
   \<and> decimal_value (take 6 (drop 20 (formatDate exUTC exLocalTime))) = 123456
   \<and> spec_timestamp exLocalTime = ''2024-03-09T09:05:01.123456Z''"
proof -
  have l: "utcOffset exLocalTime = 7200" "hour exLocalTime = 9"
    by (simp_all add: exLocalTime_def)
  have q: "spec_timestamp exLocalTime = ''2024-03-09T09:05:01.123456Z''"
    by (simp add: spec_timestamp_def exLocalTime_def decimal_2 decimal_4 decimal_6
          digit_chars)
  have v: "nat (year exTime) = 2024" "nat (hour exTime) = 7"
    "nat (nanosecond exTime) div 1000 = 123456"
    by (simp_all add: exTime_def)
  from formatDate_four_digit_years [of exUTC exLocalTime] exTime_ranges
  have e: "formatDate exUTC exLocalTime = spec_timestamp exTime"
    and p: "timePattern (formatDate exUTC exLocalTime)"
    and y: "decimal_value (take 4 (formatDate exUTC exLocalTime)) = nat (year exTime)"
    and h: "decimal_value (take 2 (drop 11 (formatDate exUTC exLocalTime)))
              = nat (hour exTime)"
    and u: "decimal_value (take 6 (drop 20 (formatDate exUTC exLocalTime)))
              = nat (nanosecond exTime) div 1000"
    unfolding exUTC_exLocalTime by blast+
  have r: "formatDate exUTC exLocalTime = ''2024-03-09T07:05:01.123456Z''"
    by (simp only: e spec_timestamp_exTime)
  show ?thesis
    using exTime_ranges p y h u l q r
    by (simp only: exUTC_exLocalTime v simp_thms)
qed

text \<open>
  Claim C7 as stated fails outside the years of four digits: a time in UTC in the
  year -1 gives \<open>/\<close> where the last digit of the year should be, and a time in UTC in
  the year 12345 is written with the year 2345.
\<close>

theorem formatDate_year_counterexample:
  "exUTC (exTime\<lparr>year := - 1\<rparr>) = exTime\<lparr>year := - 1\<rparr>
   \<and> formatDate exUTC (exTime\<lparr>year := - 1\<rparr>) = ''000/-03-09T07:05:01.123456Z''
   \<and> timePattern (formatDate exUTC (exTime\<lparr>year := - 1\<rparr>)) = False
   \<and> exUTC (exTime\<lparr>year := 12345\<rparr>) = exTime\<lparr>year := 12345\<rparr>
   \<and> formatDate exUTC (exTime\<lparr>year := 12345\<rparr>) = ''2345-03-09T07:05:01.123456Z''"
proof -
  have i: "exUTC (exTime\<lparr>year := - 1\<rparr>) = exTime\<lparr>year := - 1\<rparr>"
    "exUTC (exTime\<lparr>year := 12345\<rparr>) = exTime\<lparr>year := 12345\<rparr>"
    by (simp_all add: exUTC_def exTime_def)
  have a: "formatDate exUTC (exTime\<lparr>year := - 1\<rparr>) = ''000/-03-09T07:05:01.123456Z''"
    by code_simp
  have b: "timePattern ''000/-03-09T07:05:01.123456Z'' = False"
    by (simp add: timePattern_def is_digit_def)
  have c: "formatDate exUTC (exTime\<lparr>year := 12345\<rparr>) = ''2345-03-09T07:05:01.123456Z''"
    by code_simp
  show ?thesis by (simp only: i a b c simp_thms)
qed

end
